theory Spec2Isabelle
  imports Main "HOL-Library.Word" "HOL-Library.Signed_Division"
begin

section \<open>Machine integers\<close>

text \<open>
  The C++ sources compute element counts in \<open>int64_t\<close> and store per-tensor counts in
  \<open>int\<close>. Signed overflow is undefined in C++, so the arithmetic on \<open>int\<close> and \<open>int64_t\<close>
  is modelled on \<open>int\<close>: the model describes the executions in which no operation
  overflows. The conversion of an \<open>int64_t\<close> to \<open>int\<close> is defined (it keeps the low 32
  bits, read as two's complement) and is written out. Division and remainder truncate
  towards zero, as \<open>/\<close> and \<open>%\<close> do in C++. Buffer lengths are \<open>size_t\<close>; they are
  products of counts and element sizes and are modelled on \<open>int\<close> as well.
\<close>

definition int_of_int64 :: "int \<Rightarrow> int" where
  "int_of_int64 x = sint (word_of_int x :: 32 word)"

definition c_div :: "int \<Rightarrow> int \<Rightarrow> int" where
  "c_div a b = a sdiv b"

definition c_mod :: "int \<Rightarrow> int \<Rightarrow> int" where
  "c_mod a b = a smod b"

section \<open>Data model\<close>

text \<open>
  Modelled from the spec: the declarations of \<open>Status\<close>, \<open>Tensor\<close>, \<open>TensorShape\<close>,
  \<open>TensorTableEntry\<close>, \<open>Request\<close> and \<open>Response\<close> (common.h, message.h) are not among the
  sources; the records below carry the fields that the sources read and write. A dtype is
  the ordinal of its enumerator, an \<open>OpContext\<close>, a \<open>ReadyEvent\<close> and a \<open>StatusCallback\<close>
  are identified by a number, and a null \<open>shared_ptr\<close> is \<open>None\<close>. A shape is the list of
  its dimensions and has their product as its number of elements. A status is its type and
  its message; it is OK or in progress by its type.
\<close>

datatype StatusType =
  OK | UNKNOWN_ERROR | PRECONDITION_ERROR | ABORTED | INVALID_ARGUMENT | IN_PROGRESS

datatype Status = Status StatusType string

definition Status_OK :: Status where
  "Status_OK = Status OK []"

definition UnknownError :: "string \<Rightarrow> Status" where
  "UnknownError message = Status UNKNOWN_ERROR message"

definition PreconditionError :: "string \<Rightarrow> Status" where
  "PreconditionError message = Status PRECONDITION_ERROR message"

definition InvalidArgument :: "string \<Rightarrow> Status" where
  "InvalidArgument message = Status INVALID_ARGUMENT message"

fun ok :: "Status \<Rightarrow> bool" where
  "ok (Status t _) = (t = OK)"

fun in_progress :: "Status \<Rightarrow> bool" where
  "in_progress (Status t _) = (t = IN_PROGRESS)"

type_synonym DataType = nat
type_synonym OpContext = nat
type_synonym ReadyEvent = nat
type_synonym StatusCallback = nat

record Tensor =
  dtype :: DataType
  shape :: "int list"
  size_bytes :: int

definition shape_num_elements :: "int list \<Rightarrow> int" where
  "shape_num_elements dims = prod_list dims"

record TensorTableEntry =
  tensor_name :: string
  op_context :: OpContext
  tensor :: Tensor
  output_tensor :: "Tensor option"
  entry_root_rank :: int
  ready_event :: "ReadyEvent option"
  device :: int
  callback :: StatusCallback

datatype RequestType = ALLREDUCE | ALLGATHER | BROADCAST

record Request =
  request_rank :: int
  request_tensor_name :: string
  tensor_type :: DataType
  request_root_rank :: "int option"
  request_device :: int
  request_type :: RequestType
  tensor_shape :: "int list"

datatype ResponseType =
  RESPONSE_ALLREDUCE | RESPONSE_ALLGATHER | RESPONSE_BROADCAST | RESPONSE_ERROR

record Response =
  response_type :: ResponseType
  tensor_names :: "string list"
  devices :: "int list"
  error_message :: string

text \<open>
  The controller is read through its accessors only; the record holds what they return.
\<close>

record Controller =
  GetRank :: int
  GetLocalRank :: int
  GetSize :: int
  GetLocalSize :: int
  IsHomogeneous :: bool
  IsMpiThreadsSupported :: bool

record ParameterManager =
  HierarchicalAllreduce :: bool
  HierarchicalAllgather :: bool

section \<open>The hierarchical allreduce (AdasumCudaAllreduceOp)\<close>

text \<open>
  \<open>NcclHierarchical\<close> computes how the fused elements are split between the local ranks and
  then issues the collective calls on those ranges. The model keeps the computation: every
  local variable of the source is a field of the record it returns. The constant
  \<open>FUSION_BUFFER_ATOMIC_UNIT\<close> is not defined in the sources and is the parameter
  \<open>atomic_unit\<close>; \<open>GetMPITypeSize\<close> is the element size that the MPI context reports, and
  \<open>fused_len\<close> the length that \<open>MemcpyInFusionBuffer\<close> returns when several entries are
  fused. An allreduce entry always has an output tensor; the length read from a missing one
  is taken as 0.
\<close>

record HierarchicalPlan =
  num_elements :: int
  buffer_len :: int
  num_elements_per_rank :: int
  buffer_len_per_rank :: int
  num_elements_remaining :: int
  buffer_len_remaining :: int
  root_rank :: int
  is_root_rank :: bool
  total_num_elements :: int
  total_buffer_len :: int
  tensor_counts :: "int list option"

definition e_num_elements :: "TensorTableEntry \<Rightarrow> int" where
  "e_num_elements e = shape_num_elements (shape (tensor e))"

text \<open>
  The loop of lines 175 to 190: the count of each tensor owned by this rank.
  \<open>tensor_count\<close> is the body of the loop for one entry of \<open>n\<close> elements that starts
  at offset \<open>num_elements_sofar\<close> of the fused buffer; the sum on line 184 is computed in
  64 bits and stored back into the \<open>int\<close> element of \<open>tensor_counts\<close>.
\<close>

definition tensor_count :: "int \<Rightarrow> int \<Rightarrow> int \<Rightarrow> bool \<Rightarrow> int \<Rightarrow> int \<Rightarrow> int" where
  "tensor_count local_rank local_size per_rank is_root num_elements_sofar n =
     (let left_boundary = max num_elements_sofar (local_rank * per_rank);
          right_boundary = min (num_elements_sofar + n) ((local_rank + 1) * per_rank);
          count = int_of_int64 (max (right_boundary - left_boundary) 0)
      in if is_root \<and> num_elements_sofar + n \<ge> local_size * per_rank
         then (let left_boundary = max num_elements_sofar (local_size * per_rank);
                   right_boundary = num_elements_sofar + n
               in int_of_int64 (count + max (right_boundary - left_boundary) 0))
         else count)"

fun tensor_counts_homogeneous ::
  "int \<Rightarrow> int \<Rightarrow> int \<Rightarrow> bool \<Rightarrow> int \<Rightarrow> TensorTableEntry list \<Rightarrow> int list" where
  "tensor_counts_homogeneous local_rank local_size per_rank is_root num_elements_sofar [] = []"
| "tensor_counts_homogeneous local_rank local_size per_rank is_root num_elements_sofar (e # es) =
     tensor_count local_rank local_size per_rank is_root num_elements_sofar (e_num_elements e) #
     tensor_counts_homogeneous local_rank local_size per_rank is_root
       (num_elements_sofar + e_num_elements e) es"

text \<open>The loop of lines 194 to 201: on a non-homogeneous cluster the root owns everything.\<close>

definition tensor_counts_root :: "bool \<Rightarrow> TensorTableEntry list \<Rightarrow> int list" where
  "tensor_counts_root is_root entries =
     (if is_root then map (\<lambda>e. int_of_int64 (e_num_elements e)) entries
      else replicate (length entries) 0)"

text \<open>The loop of lines 49 to 52: the number of elements of all entries.\<close>

definition raw_num_elements :: "TensorTableEntry list \<Rightarrow> int" where
  "raw_num_elements entries = sum_list (map e_num_elements entries)"

definition NcclHierarchical ::
  "int \<Rightarrow> (DataType \<Rightarrow> int) \<Rightarrow> int \<Rightarrow> Controller \<Rightarrow> TensorTableEntry list \<Rightarrow>
   HierarchicalPlan option" where
  "NcclHierarchical atomic_unit GetMPITypeSize fused_len c entries =
     (case entries of
        [] \<Rightarrow> None
      | first_entry # _ \<Rightarrow>
          let buffer_len0 =
                (if length entries > 1 then fused_len
                 else (case output_tensor first_entry of
                         Some out \<Rightarrow> size_bytes out | None \<Rightarrow> 0));
              num_elements0 = raw_num_elements entries;
              element_size = GetMPITypeSize (dtype (tensor first_entry));
              local_size = GetLocalSize c;
              local_rank = GetLocalRank c;
              padding = IsHomogeneous c \<and> length entries > 1;
              div_by = local_size * atomic_unit;
              num_elements1 =
                (if padding then c_div (num_elements0 + div_by - 1) div_by * div_by else num_elements0);
              buffer_len1 = (if padding then num_elements1 * element_size else buffer_len0);
              per_rank = (if IsHomogeneous c then c_div num_elements1 local_size else 0);
              len_per_rank = element_size * per_rank;
              remaining =
                (if IsHomogeneous c then c_mod num_elements1 local_size else num_elements1);
              len_remaining = element_size * remaining;
              root = (if IsHomogeneous c then local_size - 1 else 0);
              is_root = (local_rank = root)
          in Some \<lparr>
               num_elements = num_elements1,
               buffer_len = buffer_len1,
               num_elements_per_rank = per_rank,
               buffer_len_per_rank = len_per_rank,
               num_elements_remaining = remaining,
               buffer_len_remaining = len_remaining,
               root_rank = root,
               is_root_rank = is_root,
               total_num_elements = (if is_root then per_rank + remaining else per_rank),
               total_buffer_len = (if is_root then len_per_rank + len_remaining else len_per_rank),
               tensor_counts =
                 (if IsHomogeneous c \<or> is_root
                  then Some (if IsHomogeneous c
                             then tensor_counts_homogeneous local_rank local_size per_rank
                                    is_root 0 entries
                             else tensor_counts_root is_root entries)
                  else None) \<rparr>)"

text \<open>
  The \<open>tensor_counts\<close> that the local rank \<open>r\<close> computes: the algorithm run with the
  controller reporting \<open>r\<close> as the local rank.
\<close>

definition rank_tensor_counts ::
  "int \<Rightarrow> (DataType \<Rightarrow> int) \<Rightarrow> int \<Rightarrow> Controller \<Rightarrow> TensorTableEntry list \<Rightarrow> int \<Rightarrow>
   int list" where
  "rank_tensor_counts atomic_unit sz fused_len c entries r =
     (case NcclHierarchical atomic_unit sz fused_len (c\<lparr>GetLocalRank := r\<rparr>) entries of
        None \<Rightarrow> []
      | Some plan \<Rightarrow> (case tensor_counts plan of None \<Rightarrow> [] | Some counts \<Rightarrow> counts))"

text \<open>
  The split in the words of the specification, on the offsets of the fused buffer: entry
  \<open>i\<close> lies at the offsets from the element total of the entries before it up to that
  total plus its own element count; the local rank \<open>r\<close> owns the shard of
  \<open>per_rank\<close> offsets that starts at \<open>r * per_rank\<close>, and the root rank \<open>local_size - 1\<close> owns
  in addition all the offsets from \<open>local_size * per_rank\<close> on, the remainder.
\<close>

definition entry_offsets :: "TensorTableEntry list \<Rightarrow> nat \<Rightarrow> int set" where
  "entry_offsets entries i =
     {raw_num_elements (take i entries) ..<
      raw_num_elements (take i entries) + e_num_elements (entries ! i)}"

definition owned_offsets :: "int \<Rightarrow> int \<Rightarrow> int \<Rightarrow> int set" where
  "owned_offsets local_size per_rank r =
     {r * per_rank ..< (r + 1) * per_rank} \<union>
     (if r = local_size - 1 then {local_size * per_rank ..} else {})"

text \<open>
  \<open>Execute\<close> returns OK at once on an empty list, without a plan, and runs the algorithm
  otherwise.
\<close>

definition Execute ::
  "int \<Rightarrow> (DataType \<Rightarrow> int) \<Rightarrow> int \<Rightarrow> Controller \<Rightarrow> TensorTableEntry list \<Rightarrow>
   HierarchicalPlan option" where
  "Execute atomic_unit GetMPITypeSize fused_len c entries =
     (if entries = [] then None
      else NcclHierarchical atomic_unit GetMPITypeSize fused_len c entries)"

text \<open>
  \<open>Enabled\<close> reads the device of the first entry and nothing else; \<open>CPU_DEVICE_ID\<close> is not
  defined in the sources and is the parameter \<open>cpu_device_id\<close>. Reading \<open>entries[0]\<close> of an
  empty vector has no defined result, which is \<open>None\<close>.
\<close>

definition Enabled ::
  "int \<Rightarrow> ParameterManager \<Rightarrow> TensorTableEntry list \<Rightarrow> Response \<Rightarrow> bool option" where
  "Enabled cpu_device_id param_manager entries response =
     (case entries of
        [] \<Rightarrow> None
      | first_entry # _ \<Rightarrow> Some (device first_entry \<noteq> cpu_device_id))"

section \<open>Global state and the enqueue API (operations.cc)\<close>

text \<open>
  The tensor table is an \<open>unordered_map\<close> from names to entries: its keys are unique and
  its iteration order is not specified. It is modelled by an association list with
  \<open>find\<close>, \<open>emplace\<close> and \<open>erase\<close>; the order of the list stands for the order in which
  the map is iterated. The message queue is a list with the front first.
\<close>

type_synonym TensorTable = "(string \<times> TensorTableEntry) list"

definition table_find :: "(string \<times> 'a) list \<Rightarrow> string \<Rightarrow> 'a option" where
  "table_find table name = map_of table name"

definition table_emplace :: "(string \<times> 'a) list \<Rightarrow> string \<Rightarrow> 'a \<Rightarrow> (string \<times> 'a) list" where
  "table_emplace table name e =
     (case map_of table name of None \<Rightarrow> table @ [(name, e)] | Some _ \<Rightarrow> table)"

definition table_erase :: "(string \<times> 'a) list \<Rightarrow> string \<Rightarrow> (string \<times> 'a) list" where
  "table_erase table name = filter (\<lambda>kv. fst kv \<noteq> name) table"

record HorovodGlobalState =
  shut_down :: bool
  initialization_done :: bool
  tensor_table :: TensorTable
  message_queue :: "Request list"
  controller :: Controller

definition NOT_INITIALIZED_ERROR :: Status where
  "NOT_INITIALIZED_ERROR =
     PreconditionError ''Horovod has not been initialized; use hvd.init().''"

definition SHUT_DOWN_ERROR :: Status where
  "SHUT_DOWN_ERROR =
     UnknownError
       (''Horovod has been shut down. This was caused by an exception on one of the '' @
        ''ranks or an attempt to allreduce, allgather or broadcast a tensor after '' @
        ''one of the ranks finished execution. If the shutdown was caused by an '' @
        ''exception, you should see the exception in the log before the first '' @
        ''shutdown message.'')"

definition DUPLICATE_NAME_ERROR :: Status where
  "DUPLICATE_NAME_ERROR =
     InvalidArgument
       (''Requested to allreduce, allgather, or broadcast a tensor with the same '' @
        ''name as another tensor that is currently being processed.  If you want '' @
        ''to request another tensor, use a different tensor name.'')"

definition CheckInitialized :: "HorovodGlobalState \<Rightarrow> Status" where
  "CheckInitialized g = (if \<not> initialization_done g then NOT_INITIALIZED_ERROR else Status_OK)"

text \<open>
  The three enqueue functions build the request and the table entry and then, under the
  lock, check the shutdown flag and the name before they touch the table and the queue.
  They return the status together with the global state.
\<close>

definition EnqueueTensorAllreduce ::
  "HorovodGlobalState \<Rightarrow> OpContext \<Rightarrow> Tensor \<Rightarrow> Tensor option \<Rightarrow> ReadyEvent option \<Rightarrow>
   string \<Rightarrow> int \<Rightarrow> StatusCallback \<Rightarrow> Status \<times> HorovodGlobalState" where
  "EnqueueTensorAllreduce g ctx t out ev name dev cb =
     (let message =
            \<lparr>request_rank = GetRank (controller g), request_tensor_name = name,
             tensor_type = dtype t, request_root_rank = None, request_device = dev,
             request_type = ALLREDUCE, tensor_shape = shape t\<rparr>;
          e = \<lparr>tensor_name = name, op_context = ctx, tensor = t, output_tensor = out,
               entry_root_rank = 0, ready_event = ev, device = dev, callback = cb\<rparr>
      in if shut_down g then (SHUT_DOWN_ERROR, g)
         else if table_find (tensor_table g) name \<noteq> None then (DUPLICATE_NAME_ERROR, g)
         else (Status_OK,
               g\<lparr>tensor_table := table_emplace (tensor_table g) name e,
                 message_queue := message_queue g @ [message]\<rparr>))"

definition EnqueueTensorAllgather ::
  "HorovodGlobalState \<Rightarrow> OpContext \<Rightarrow> Tensor \<Rightarrow> ReadyEvent option \<Rightarrow>
   string \<Rightarrow> int \<Rightarrow> StatusCallback \<Rightarrow> Status \<times> HorovodGlobalState" where
  "EnqueueTensorAllgather g ctx t ev name dev cb =
     (let message =
            \<lparr>request_rank = GetRank (controller g), request_tensor_name = name,
             tensor_type = dtype t, request_root_rank = None, request_device = dev,
             request_type = ALLGATHER, tensor_shape = shape t\<rparr>;
          e = \<lparr>tensor_name = name, op_context = ctx, tensor = t, output_tensor = None,
               entry_root_rank = 0, ready_event = ev, device = dev, callback = cb\<rparr>
      in if shut_down g then (SHUT_DOWN_ERROR, g)
         else if table_find (tensor_table g) name \<noteq> None then (DUPLICATE_NAME_ERROR, g)
         else (Status_OK,
               g\<lparr>tensor_table := table_emplace (tensor_table g) name e,
                 message_queue := message_queue g @ [message]\<rparr>))"

definition EnqueueTensorBroadcast ::
  "HorovodGlobalState \<Rightarrow> OpContext \<Rightarrow> Tensor \<Rightarrow> Tensor option \<Rightarrow> int \<Rightarrow>
   ReadyEvent option \<Rightarrow> string \<Rightarrow> int \<Rightarrow> StatusCallback \<Rightarrow> Status \<times> HorovodGlobalState" where
  "EnqueueTensorBroadcast g ctx t out root ev name dev cb =
     (let message =
            \<lparr>request_rank = GetRank (controller g), request_tensor_name = name,
             tensor_type = dtype t, request_root_rank = Some root, request_device = dev,
             request_type = BROADCAST, tensor_shape = shape t\<rparr>;
          e = \<lparr>tensor_name = name, op_context = ctx, tensor = t, output_tensor = out,
               entry_root_rank = root, ready_event = ev, device = dev, callback = cb\<rparr>
      in if shut_down g then (SHUT_DOWN_ERROR, g)
         else if table_find (tensor_table g) name \<noteq> None then (DUPLICATE_NAME_ERROR, g)
         else (Status_OK,
               g\<lparr>tensor_table := table_emplace (tensor_table g) name e,
                 message_queue := message_queue g @ [message]\<rparr>))"

text \<open>
  The contract of an enqueue call as the specification words it, for a call with the name
  \<open>name\<close>, the request type \<open>ty\<close> and the callback \<open>cb\<close> that returns \<open>result\<close> from
  the state \<open>g\<close>: the shutdown error and no change when the system is shut down, else the
  duplicate-name error and no change when the name is outstanding, else OK with exactly one
  entry added to the table under the name and exactly one request pushed onto the queue.
\<close>

definition enqueue_contract ::
  "HorovodGlobalState \<Rightarrow> string \<Rightarrow> RequestType \<Rightarrow> StatusCallback \<Rightarrow>
   Status \<times> HorovodGlobalState \<Rightarrow> bool" where
  "enqueue_contract g name ty cb result =
     (if shut_down g then result = (SHUT_DOWN_ERROR, g)
      else if name \<in> fst ` set (tensor_table g) then result = (DUPLICATE_NAME_ERROR, g)
      else fst result = Status_OK
         \<and> butlast (tensor_table (snd result)) = tensor_table g
         \<and> length (tensor_table (snd result)) = length (tensor_table g) + 1
         \<and> fst (last (tensor_table (snd result))) = name
         \<and> tensor_name (snd (last (tensor_table (snd result)))) = name
         \<and> callback (snd (last (tensor_table (snd result)))) = cb
         \<and> butlast (message_queue (snd result)) = message_queue g
         \<and> length (message_queue (snd result)) = length (message_queue g) + 1
         \<and> request_tensor_name (last (message_queue (snd result))) = name
         \<and> request_type (last (message_queue (snd result))) = ty
         \<and> shut_down (snd result) = shut_down g
         \<and> initialization_done (snd result) = initialization_done g
         \<and> controller (snd result) = controller g)"

subsection \<open>Lifecycle queries\<close>

text \<open>
  The controller of this file is always an \<open>MPIController\<close>, so the cast in
  \<open>horovod_mpi_threads_supported\<close> succeeds.
\<close>

definition horovod_rank :: "HorovodGlobalState \<Rightarrow> int" where
  "horovod_rank g = (if \<not> initialization_done g then - 1 else GetRank (controller g))"

definition horovod_local_rank :: "HorovodGlobalState \<Rightarrow> int" where
  "horovod_local_rank g =
     (if \<not> initialization_done g then - 1 else GetLocalRank (controller g))"

definition horovod_size :: "HorovodGlobalState \<Rightarrow> int" where
  "horovod_size g = (if \<not> initialization_done g then - 1 else GetSize (controller g))"

definition horovod_local_size :: "HorovodGlobalState \<Rightarrow> int" where
  "horovod_local_size g =
     (if \<not> initialization_done g then - 1 else GetLocalSize (controller g))"

definition horovod_mpi_threads_supported :: "HorovodGlobalState \<Rightarrow> int" where
  "horovod_mpi_threads_supported g =
     (if \<not> initialization_done g then - 1
      else if IsMpiThreadsSupported (controller g) then 1 else 0)"

subsection \<open>Performing one response\<close>

text \<open>
  What \<open>PerformOperation\<close> and the shutdown sequence do to the outside is recorded as a
  trace of actions in the order in which they happen: the calls to the timeline, the polls
  of the ready events with their answers, the sleeps, the call of
  \<open>op_manager->ExecuteOperation\<close> and the invocations of the callbacks.
\<close>

datatype action =
    TimelineStart string ResponseType
  | TimelineActivityStartAll "string list" string
  | TimelineActivityEndAll "string list"
  | TimelineActivityStart string string
  | TimelineActivityEnd string
  | TimelineEnd string "Tensor option"
  | ReadyPoll ReadyEvent bool
  | Sleep
  | ExecuteOperationCall "TensorTableEntry list" Response
  | InvokeCallback StatusCallback Status

text \<open>
  The collaborators of \<open>PerformOperation\<close> are outside the sources and are given by an
  environment. \<open>Ready env ev k\<close> is the answer of the ready event \<open>ev\<close> to its poll in
  pass \<open>k\<close> of the waiting loop (an event still waited for is polled once in every pass).
  \<open>ExecuteOperation\<close> returns a status, or throws a \<open>std::exception\<close> with the message
  \<open>what()\<close>, or throws a value of another type.

  Modelled from the spec: \<open>FusionBufferManager::InitializeBuffer\<close> is not among the
  sources. It allocates lazily: when it allocates it calls the two hooks around the
  allocation and returns the status of the allocation, and otherwise it reuses the buffer
  and returns OK.
\<close>

datatype exec_result = Returned Status | Thrown string | ThrownOther

record Environment =
  allocates :: bool
  allocation_status :: Status
  Ready :: "ReadyEvent \<Rightarrow> nat \<Rightarrow> bool"
  ExecuteOperation :: "TensorTableEntry list \<Rightarrow> Response \<Rightarrow> exec_result"

definition InitializeBuffer :: "Environment \<Rightarrow> string list \<Rightarrow> action list \<times> Status" where
  "InitializeBuffer env names =
     (if allocates env
      then ([TimelineActivityStartAll names ''INIT_FUSION_BUFFER'',
             TimelineActivityEndAll names], allocation_status env)
      else ([], Status_OK))"

text \<open>
  Lines 246 to 261: the entries of the response are taken out of the tensor table. A name
  that is not in the table fails the assertion, which is \<open>None\<close>.
\<close>

fun collect_entries ::
  "TensorTable \<Rightarrow> string list \<Rightarrow> (TensorTableEntry list \<times> TensorTable) option" where
  "collect_entries table [] = Some ([], table)"
| "collect_entries table (name # names) =
     (case table_find table name of
        None \<Rightarrow> None
      | Some e \<Rightarrow>
          (case collect_entries (table_erase table name) names of
             None \<Rightarrow> None
           | Some (entries, table') \<Rightarrow> Some (e # entries, table')))"

text \<open>
  Lines 290 to 296: \<open>waiting_tensors\<close> receives a copy of every entry whose ready event is
  not null. Of a copy the loop reads the name and the event, which is what the model keeps.
\<close>

fun waiting_tensors :: "TensorTableEntry list \<Rightarrow> (string \<times> ReadyEvent) list" where
  "waiting_tensors [] = []"
| "waiting_tensors (e # es) =
     (case ready_event e of
        None \<Rightarrow> waiting_tensors es
      | Some ev \<Rightarrow> (tensor_name e, ev) # waiting_tensors es)"

text \<open>Lines 298 to 306: one pass over the waiting tensors; the ready ones are erased.\<close>

fun poll_pass ::
  "(ReadyEvent \<Rightarrow> nat \<Rightarrow> bool) \<Rightarrow> nat \<Rightarrow> (string \<times> ReadyEvent) list \<Rightarrow>
   (string \<times> ReadyEvent) list \<times> action list" where
  "poll_pass rdy k [] = ([], [])"
| "poll_pass rdy k ((name, ev) # waiting) =
     (let (waiting', acts) = poll_pass rdy k waiting
      in if rdy ev k
         then (waiting',
               [ReadyPoll ev True, TimelineActivityEnd name,
                TimelineActivityStart name ''WAIT_FOR_OTHER_TENSOR_DATA''] @ acts)
         else ((name, ev) # waiting', ReadyPoll ev False # acts))"

text \<open>
  Lines 297 to 308: the loop runs until no tensor is waited for, which may be never. The
  model gives it a number of passes it may make: the result says whether the loop has
  ended within them, and carries the actions made up to then.
\<close>

fun wait_loop ::
  "nat \<Rightarrow> (ReadyEvent \<Rightarrow> nat \<Rightarrow> bool) \<Rightarrow> nat \<Rightarrow> (string \<times> ReadyEvent) list \<Rightarrow>
   bool \<times> action list" where
  "wait_loop fuel rdy k [] = (True, [])"
| "wait_loop 0 rdy k (w # ws) = (False, [])"
| "wait_loop (Suc fuel) rdy k (w # ws) =
     (let (waiting', acts) = poll_pass rdy k (w # ws);
          (ended, rest) = wait_loop fuel rdy (Suc k) waiting'
      in (ended, acts @ [Sleep] @ rest))"

text \<open>Lines 281 to 284 and 323 to 326: every entry is ended on the timeline and called back.\<close>

definition fail_entries :: "Status \<Rightarrow> TensorTableEntry list \<Rightarrow> action list" where
  "fail_entries status entries =
     concat (map (\<lambda>e. [TimelineEnd (tensor_name e) None, InvokeCallback (callback e) status])
               entries)"

definition finish_entries :: "Status \<Rightarrow> TensorTableEntry list \<Rightarrow> action list" where
  "finish_entries status entries =
     (if \<not> in_progress status
      then concat (map (\<lambda>e. [TimelineEnd (tensor_name e)
                                 (if ok status then output_tensor e else None),
                               InvokeCallback (callback e) status]) entries)
      else [])"

text \<open>
  Lines 315 to 320: the single call site of the execution, inside \<open>try\<close>. The handler is
  for \<open>const std::exception&\<close>: it turns such an exception into the unknown-error status
  with its message. A throw of another type is not caught and leaves \<open>PerformOperation\<close>,
  which is \<open>None\<close>.
\<close>

definition execute_status ::
  "Environment \<Rightarrow> TensorTableEntry list \<Rightarrow> Response \<Rightarrow> Status option" where
  "execute_status env entries response =
     (case ExecuteOperation env entries response of
        Returned status \<Rightarrow> Some status
      | Thrown what \<Rightarrow> Some (UnknownError what)
      | ThrownOther \<Rightarrow> None)"

text \<open>
  How \<open>PerformOperation\<close> ends: it returns, or it fails the assertion on the table, or the
  exception of the execution leaves it, or (in the model only) the waiting loop has not ended
  within the passes it was given.
\<close>

datatype outcome = Completed | AssertionFailed | Escaped | StillWaiting

text \<open>
  Lines 315 to 327: the execution and what follows it. When the exception leaves, nothing
  follows; otherwise the entries are ended and called back with the status.
\<close>

definition after_execute ::
  "Environment \<Rightarrow> TensorTableEntry list \<Rightarrow> Response \<Rightarrow> outcome \<times> action list" where
  "after_execute env entries response =
     (case execute_status env entries response of
        None \<Rightarrow> (Escaped, [])
      | Some status \<Rightarrow> (Completed, finish_entries status entries))"

definition PerformOperation ::
  "nat \<Rightarrow> Environment \<Rightarrow> TensorTable \<Rightarrow> Response \<Rightarrow> outcome \<times> TensorTable \<times> action list" where
  "PerformOperation fuel env table response =
     (case collect_entries table (tensor_names response) of
        None \<Rightarrow> (AssertionFailed, table, [])
      | Some (entries, table') \<Rightarrow>
          let starts = map (\<lambda>e. TimelineStart (tensor_name e) (response_type response)) entries;
              (init_acts, init_status) =
                (if length entries > 1 then InitializeBuffer env (map tensor_name entries)
                 else ([], Status_OK))
          in if length entries > 1 \<and> \<not> ok init_status
             then (Completed, table', starts @ init_acts @ fail_entries init_status entries)
             else
               let waiting = waiting_tensors entries;
                   wait_starts =
                     map (\<lambda>w. TimelineActivityStart (fst w) ''WAIT_FOR_DATA'') waiting;
                   (ended, polls) = wait_loop fuel (Ready env) 0 waiting
               in if \<not> ended
                  then (StillWaiting, table', starts @ init_acts @ wait_starts @ polls)
                  else
                    let wait_ends = map (\<lambda>w. TimelineActivityEnd (fst w)) waiting;
                        (out, finish) = after_execute env entries response
                    in (out, table',
                        starts @ init_acts @ wait_starts @ polls @ wait_ends @
                        [ExecuteOperationCall entries response] @ finish))"

text \<open>Kinds of actions, to speak about the places of a trace.\<close>

fun is_execute :: "action \<Rightarrow> bool" where
  "is_execute (ExecuteOperationCall es r) = True"
| "is_execute _ = False"

fun is_callback :: "action \<Rightarrow> bool" where
  "is_callback (InvokeCallback cb status) = True"
| "is_callback _ = False"

fun is_poll :: "action \<Rightarrow> bool" where
  "is_poll (ReadyPoll ev b) = True"
| "is_poll _ = False"

fun is_wait_start :: "action \<Rightarrow> bool" where
  "is_wait_start (TimelineActivityStart name activity) = (activity = ''WAIT_FOR_DATA'')"
| "is_wait_start _ = False"

definition quiet :: "action list \<Rightarrow> bool" where
  "quiet acts = (\<forall>a \<in> set acts. \<not> is_execute a)"

subsection \<open>The shutdown sequence of the background thread\<close>

text \<open>
  Lines 526 to 543 of \<open>BackgroundThreadLoop\<close>, after the loop has ended: the flag is set,
  the callbacks of the outstanding entries are collected, the table is cleared and the queue
  is popped until it is empty, and then every collected callback is called.
\<close>

fun pop_all :: "Request list \<Rightarrow> Request list" where
  "pop_all [] = []"
| "pop_all (m # queue) = pop_all queue"

definition shutdown_sequence :: "HorovodGlobalState \<Rightarrow> HorovodGlobalState \<times> action list" where
  "shutdown_sequence state =
     (let state1 = state\<lparr>shut_down := True\<rparr>;
          callbacks = map (\<lambda>e. callback (snd e)) (tensor_table state1);
          state2 = state1\<lparr>tensor_table := [], message_queue := pop_all (message_queue state1)\<rparr>
      in (state2, map (\<lambda>cb. InvokeCallback cb SHUT_DOWN_ERROR) callbacks))"

section \<open>The timeline writer (timeline.cc)\<close>

text \<open>
  The timeline file receives JSON objects, one per line. An object is modelled by a value
  that carries its fields: the two metadata objects that register a tensor as a process,
  and the event object with its name, phase, timestamp, pid, the optional \<open>dur\<close> and the
  optional \<open>args\<close>. Times are in microseconds. The file is the list of the objects
  written, with the state of the stream and the number of objects flushed;
  \<open>TIMELINE_FLUSH_TIME\<close> is not defined in the sources and is the parameter \<open>flush_time\<close>.
  The table of the timeline maps a tensor name to its pid; it is an association list as
  above, and it holds fewer than \<open>2 ^ 31\<close> names, so that its size is an \<open>int\<close>. The
  bracket that \<open>Initialize\<close> writes at the head of the file is not an object.
\<close>

datatype timeline_object =
    ProcessName int string
  | ProcessSortIndex int int
  | Event string char int int "int option" "string option"

record Timeline =
  file_good :: bool
  file_objects :: "timeline_object list"
  file_flushed :: nat
  initialized :: bool
  start_time :: int
  last_flush_time :: int
  timeline_table :: "(string \<times> int) list"











text \<open>
  A file is well registered when every event carries a pid that was registered before it,
  no pid is registered twice, and a registration is the two metadata objects of the pid
  followed at once by an event of that pid. \<open>seen\<close> holds the pids registered so far.
\<close>

fun well_registered :: "int list \<Rightarrow> timeline_object list \<Rightarrow> bool" where
  "well_registered seen [] = True"
| "well_registered seen (Event op_name phase ts pid dur args # objects) =
     (pid \<in> set seen \<and> well_registered seen objects)"
| "well_registered seen
     (ProcessName pid name # ProcessSortIndex pid' idx # Event op_name phase ts pid'' dur args #
      objects) =
     (pid \<notin> set seen \<and> pid' = pid \<and> idx = pid \<and> pid'' = pid \<and>
      well_registered (pid # seen) objects)"
| "well_registered seen objects = False"


section \<open>Example inputs\<close>

text \<open>
  Concrete inputs on which the theorems below are run: three gradients of 1000, 2000 and
  3000 elements on a homogeneous cluster with four ranks per node, one tensor of \<open>2 ^ 32\<close>
  elements on two ranks per node, a global state with one outstanding tensor, and a response
  for two tensors of which the first has a ready event that answers yes from its second poll
  on. The atomic unit of the fusion buffer is 64 in these runs and the host device is
  \<open>- 1\<close>, the values of \<open>FUSION_BUFFER_ATOMIC_UNIT\<close> and \<open>CPU_DEVICE_ID\<close> in common.h.
\<close>

definition example_entry ::
  "string \<Rightarrow> int \<Rightarrow> ReadyEvent option \<Rightarrow> StatusCallback \<Rightarrow> TensorTableEntry" where
  "example_entry name n ev cb =
     \<lparr>tensor_name = name, op_context = 0,
      tensor = \<lparr>dtype = 7, shape = [n], size_bytes = 4 * n\<rparr>,
      output_tensor = Some \<lparr>dtype = 7, shape = [n], size_bytes = 4 * n\<rparr>,
      entry_root_rank = 0, ready_event = ev, device = 0, callback = cb\<rparr>"

definition example_entries :: "TensorTableEntry list" where
  "example_entries =
     [example_entry ''grad_a'' 1000 None 1, example_entry ''grad_b'' 2000 None 2,
      example_entry ''grad_c'' 3000 None 3]"

definition example_controller :: Controller where
  "example_controller =
     \<lparr>GetRank = 4, GetLocalRank = 0, GetSize = 8, GetLocalSize = 4,
      IsHomogeneous = True, IsMpiThreadsSupported = True\<rparr>"

definition large_controller :: Controller where
  "large_controller =
     \<lparr>GetRank = 0, GetLocalRank = 0, GetSize = 4, GetLocalSize = 2,
      IsHomogeneous = True, IsMpiThreadsSupported = True\<rparr>"

definition large_entries :: "TensorTableEntry list" where
  "large_entries = [example_entry ''embedding'' 4294967296 None 1]"

definition example_state :: HorovodGlobalState where
  "example_state =
     \<lparr>shut_down = False, initialization_done = True,
      tensor_table = [(''grad_a'', example_entry ''grad_a'' 1000 None 1)],
      message_queue = [], controller = example_controller\<rparr>"

definition example_tensor :: Tensor where
  "example_tensor = \<lparr>dtype = 7, shape = [2000], size_bytes = 8000\<rparr>"

definition waiting_table :: TensorTable where
  "waiting_table =
     [(''grad_a'', example_entry ''grad_a'' 1000 (Some 1) 1),
      (''grad_b'', example_entry ''grad_b'' 2000 None 2)]"

definition example_response :: Response where
  "example_response =
     \<lparr>response_type = RESPONSE_ALLREDUCE, tensor_names = [''grad_a'', ''grad_b''],
      devices = [0, 0], error_message = []\<rparr>"

definition example_env :: "exec_result \<Rightarrow> Environment" where
  "example_env result =
     \<lparr>allocates = False, allocation_status = Status_OK,
      Ready = (\<lambda>ev k. ev \<le> k), ExecuteOperation = (\<lambda>entries response. result)\<rparr>"

definition never_ready_env :: Environment where
  "never_ready_env =
     \<lparr>allocates = False, allocation_status = Status_OK,
      Ready = (\<lambda>ev k. False), ExecuteOperation = (\<lambda>entries response. Returned Status_OK)\<rparr>"

definition example_before :: "action list" where
  "example_before =
     [TimelineStart ''grad_a'' RESPONSE_ALLREDUCE, TimelineStart ''grad_b'' RESPONSE_ALLREDUCE,
      TimelineActivityStart ''grad_a'' ''WAIT_FOR_DATA'',
      ReadyPoll 1 False, Sleep, ReadyPoll 1 True, TimelineActivityEnd ''grad_a'',
      TimelineActivityStart ''grad_a'' ''WAIT_FOR_OTHER_TENSOR_DATA'', Sleep,
      TimelineActivityEnd ''grad_a'']"



section \<open>The split of the hierarchical allreduce\<close>

lemma c_div_nonneg: "0 \<le> a \<Longrightarrow> 0 < b \<Longrightarrow> c_div a b = a div b"
  by (simp add: c_div_def signed_divide_int_def sgn_if)

lemma c_mod_nonneg: "0 \<le> a \<Longrightarrow> 0 < b \<Longrightarrow> c_mod a b = a mod b"
  by (simp add: c_mod_def signed_modulo_int_def sgn_if)

lemma int_of_int64_id: "- (2 ^ 31) \<le> x \<Longrightarrow> x < 2 ^ 31 \<Longrightarrow> int_of_int64 x = x"
  by (simp add: int_of_int64_def sint_sbintrunc' signed_take_bit_int_eq_self)

lemma round_up_multiple:
  fixes n d :: int
  assumes "0 \<le> n" "0 < d"
  shows "d dvd (n + d - 1) div d * d"
    and "n \<le> (n + d - 1) div d * d"
    and "(n + d - 1) div d * d < n + d"
proof -
  show "d dvd (n + d - 1) div d * d" by simp
  have eq: "(n + d - 1) div d * d = (n + d - 1) - (n + d - 1) mod d"
    by (simp add: minus_mod_eq_div_mult)
  have m: "0 \<le> (n + d - 1) mod d" "(n + d - 1) mod d < d"
    using assms by simp_all
  show "n \<le> (n + d - 1) div d * d" using eq m by linarith
  show "(n + d - 1) div d * d < n + d" using eq m by linarith
qed

lemma round_up_least:
  fixes n d m :: int
  assumes "0 < d" "d dvd m" "n \<le> m"
  shows "(n + d - 1) div d * d \<le> m"
proof -
  obtain k where k: "m = k * d" using assms(2) by (auto simp: dvd_def mult.commute)
  have "n + d - 1 \<le> k * d + (d - 1)" using assms k by simp
  then have "(n + d - 1) div d \<le> (k * d + (d - 1)) div d"
    using assms(1) by (rule zdiv_mono1)
  also have "(k * d + (d - 1)) div d = k" using assms(1) by simp
  finally have "(n + d - 1) div d \<le> k" .
  then show ?thesis using k assms(1) by (simp add: mult_right_mono)
qed


lemma plan_exists:
  "entries \<noteq> [] \<Longrightarrow> \<exists>plan. NcclHierarchical au sz fl c entries = Some plan"
  by (cases entries) (simp_all add: NcclHierarchical_def Let_def)

lemma plan_num_elements:
  assumes "NcclHierarchical au sz fl c entries = Some plan"
  shows "num_elements plan =
          (if IsHomogeneous c \<and> length entries > 1
           then c_div (raw_num_elements entries + GetLocalSize c * au - 1) (GetLocalSize c * au)
                  * (GetLocalSize c * au)
           else raw_num_elements entries)"
  using assms
  by (cases entries) (auto simp: NcclHierarchical_def Let_def)

lemma plan_buffer_len:
  assumes "NcclHierarchical au sz fl c entries = Some plan"
    and "IsHomogeneous c" "length entries > 1"
  shows "buffer_len plan = num_elements plan * sz (dtype (tensor (hd entries)))"
  using assms
  by (cases entries) (auto simp: NcclHierarchical_def Let_def)

lemma plan_split:
  assumes "NcclHierarchical au sz fl c entries = Some plan"
  shows "num_elements_per_rank plan =
           (if IsHomogeneous c then c_div (num_elements plan) (GetLocalSize c) else 0)"
    and "num_elements_remaining plan =
           (if IsHomogeneous c then c_mod (num_elements plan) (GetLocalSize c)
            else num_elements plan)"
    and "root_rank plan = (if IsHomogeneous c then GetLocalSize c - 1 else 0)"
    and "is_root_rank plan = (GetLocalRank c = root_rank plan)"
    and "total_num_elements plan =
           (if is_root_rank plan
            then num_elements_per_rank plan + num_elements_remaining plan
            else num_elements_per_rank plan)"
  using assms
  by (cases entries; auto simp: NcclHierarchical_def Let_def)+

lemma plan_tensor_counts:
  assumes "NcclHierarchical au sz fl c entries = Some plan" and "IsHomogeneous c"
  shows "tensor_counts plan =
           Some (tensor_counts_homogeneous (GetLocalRank c) (GetLocalSize c)
                   (num_elements_per_rank plan) (is_root_rank plan) 0 entries)"
  using assms
  by (cases entries) (auto simp: NcclHierarchical_def Let_def)

lemma padded_plan:
  assumes h: "IsHomogeneous c" and m: "length entries > 1"
    and ls: "1 \<le> GetLocalSize c" and au: "1 \<le> atomic_unit"
    and n: "0 \<le> raw_num_elements entries"
    and p: "NcclHierarchical atomic_unit sz fused_len c entries = Some plan"
  shows "num_elements plan =
           (raw_num_elements entries + GetLocalSize c * atomic_unit - 1)
             div (GetLocalSize c * atomic_unit) * (GetLocalSize c * atomic_unit)
       \<and> GetLocalSize c * atomic_unit dvd num_elements plan
       \<and> raw_num_elements entries \<le> num_elements plan
       \<and> (\<forall>k. GetLocalSize c * atomic_unit dvd k \<and> raw_num_elements entries \<le> k
              \<longrightarrow> num_elements plan \<le> k)
       \<and> num_elements plan < raw_num_elements entries + GetLocalSize c * atomic_unit
       \<and> GetLocalSize c dvd num_elements plan
       \<and> num_elements_remaining plan = 0
       \<and> buffer_len plan = num_elements plan * sz (dtype (tensor (hd entries)))"
proof -
  let ?d = "GetLocalSize c * atomic_unit"
  let ?n = "raw_num_elements entries"
  have d: "0 < ?d" using ls au by simp
  have "0 \<le> ?n + ?d - 1" using n d by linarith
  then have eq: "num_elements plan = (?n + ?d - 1) div ?d * ?d"
    using plan_num_elements [OF p] h m d by (simp add: c_div_nonneg)
  have dv: "?d dvd num_elements plan" using eq by simp
  have ge: "?n \<le> num_elements plan" using eq round_up_multiple(2) [OF n d] by simp
  have lt: "num_elements plan < ?n + ?d" using eq round_up_multiple(3) [OF n d] by simp
  have least: "\<forall>k. ?d dvd k \<and> ?n \<le> k \<longrightarrow> num_elements plan \<le> k"
    using eq round_up_least [OF d] by simp
  have dl: "GetLocalSize c dvd num_elements plan"
    using dv by (rule dvd_mult_left)
  have "0 \<le> num_elements plan" using ge n by linarith
  then have "num_elements_remaining plan = num_elements plan mod GetLocalSize c"
    using plan_split(2) [OF p] h ls by (simp add: c_mod_nonneg)
  then have rem: "num_elements_remaining plan = 0" using dl by simp
  have bl: "buffer_len plan = num_elements plan * sz (dtype (tensor (hd entries)))"
    using plan_buffer_len [OF p h m] .
  show ?thesis using eq dv ge least lt dl rem bl by blast
qed

lemma overlap_step:
  fixes a b p x :: int
  assumes "0 \<le> p" "0 \<le> x" "0 \<le> a" "a \<le> b"
  shows "max (min b x - a) 0 + max (min b (x + p) - max a x) 0 = max (min b (x + p) - a) 0"
  using assms unfolding max_def min_def by (auto split: if_splits)

lemma overlap_sum:
  fixes a b p :: int
  assumes "0 \<le> p" "0 \<le> a" "a \<le> b"
  shows "(\<Sum>r = 0..<k. max (min b ((int r + 1) * p) - max a (int r * p)) 0)
           = max (min b (int k * p) - a) 0"
proof (induction k)
  case 0
  then show ?case using assms by simp
next
  case (Suc k)
  have x: "0 \<le> int k * p" using assms(1) by simp
  have e: "(int k + 1) * p = int k * p + p" by (simp add: algebra_simps)
  have "(\<Sum>r = 0..<Suc k. max (min b ((int r + 1) * p) - max a (int r * p)) 0)
          = max (min b (int k * p) - a) 0 + max (min b (int k * p + p) - max a (int k * p)) 0"
    using Suc e by simp
  also have "\<dots> = max (min b (int k * p + p) - a) 0"
    by (rule overlap_step [OF assms(1) x assms(2,3)])
  also have "\<dots> = max (min b (int (Suc k) * p) - a) 0"
    by (simp add: algebra_simps)
  finally show ?case .
qed

lemma count_bounds:
  fixes s n lo hi top :: int
  assumes "0 \<le> n" "lo \<le> hi" "hi \<le> top"
  shows "0 \<le> max (min (s + n) hi - max s lo) 0"
    and "max (min (s + n) hi - max s lo) 0 + max (s + n - max s top) 0 \<le> n"
    and "0 \<le> max (s + n - max s top) 0"
  using assms unfolding max_def min_def by (auto split: if_splits)

lemma tensor_count_eq:
  assumes p: "0 \<le> p" and n: "0 \<le> n" "n < 2 ^ 31"
    and r: "0 \<le> r" "r + 1 \<le> ls"
  shows "tensor_count r ls p is_root s n =
           max (min (s + n) ((r + 1) * p) - max s (r * p)) 0
           + (if is_root then max (s + n - max s (ls * p)) 0 else 0)"
proof -
  define lo where "lo = r * p"
  define hi where "hi = (r + 1) * p"
  define top where "top = ls * p"
  define c where "c = max (min (s + n) hi - max s lo) 0"
  define x where "x = max (s + n - max s top) 0"
  have lh: "lo \<le> hi" unfolding lo_def hi_def using p by (simp add: mult_right_mono)
  have ht: "hi \<le> top" unfolding hi_def top_def using r p by (simp add: mult_right_mono)
  note b = count_bounds [OF n(1) lh ht, of s, folded c_def x_def]
  have nc: "int_of_int64 c = c" using b n by (intro int_of_int64_id) linarith+
  have ncx: "int_of_int64 (c + x) = c + x" using b n by (intro int_of_int64_id) linarith+
  have x0: "\<not> top \<le> s + n \<Longrightarrow> x = 0" unfolding x_def max_def by (auto split: if_splits)
  have "tensor_count r ls p is_root s n =
          (if is_root \<and> top \<le> s + n then int_of_int64 (int_of_int64 c + x) else int_of_int64 c)"
    unfolding tensor_count_def Let_def lo_def hi_def top_def c_def x_def by simp
  also have "\<dots> = c + (if is_root then x else 0)"
    using nc ncx x0 by simp
  finally show ?thesis unfolding lo_def hi_def top_def c_def x_def .
qed

lemma rank_sum:
  assumes p: "0 \<le> p" and s: "0 \<le> s" and n: "0 \<le> n" "n < 2 ^ 31" and ls: "1 \<le> ls"
  shows "(\<Sum>r = 0..<nat ls. tensor_count (int r) ls p (int r = ls - 1) s n) = n"
proof -
  let ?c = "\<lambda>r. max (min (s + n) ((int r + 1) * p) - max s (int r * p)) 0"
  let ?x = "max (s + n - max s (ls * p)) 0"
  have "(\<Sum>r = 0..<nat ls. tensor_count (int r) ls p (int r = ls - 1) s n)
          = (\<Sum>r = 0..<nat ls. ?c r + (if r = nat (ls - 1) then ?x else 0))"
  proof (rule sum.cong)
    fix r assume "r \<in> {0..<nat ls}"
    then have r: "0 \<le> int r" "int r + 1 \<le> ls" by auto
    have "(int r = ls - 1) = (r = nat (ls - 1))" using ls by auto
    then show "tensor_count (int r) ls p (int r = ls - 1) s n
                 = ?c r + (if r = nat (ls - 1) then ?x else 0)"
      using tensor_count_eq [OF p n r, of "int r = ls - 1" s] by simp
  qed simp
  also have "\<dots> = (\<Sum>r = 0..<nat ls. ?c r) + (\<Sum>r = 0..<nat ls. if r = nat (ls - 1) then ?x else 0)"
    by (simp add: sum.distrib)
  also have "(\<Sum>r = 0..<nat ls. if r = nat (ls - 1) then ?x else 0) = ?x"
    using ls by (simp add: sum.delta')
  also have "(\<Sum>r = 0..<nat ls. ?c r) = max (min (s + n) (int (nat ls) * p) - s) 0"
    using overlap_sum [OF p s, of "s + n" "nat ls"] n(1) by simp
  also have "int (nat ls) = ls" using ls by simp
  also have "max (min (s + n) (ls * p) - s) 0 + ?x = n"
    using n(1) unfolding max_def min_def by (auto split: if_splits)
  finally show ?thesis .
qed

lemma tensor_counts_homogeneous_length:
  "length (tensor_counts_homogeneous r ls p is_root s es) = length es"
  by (induction es arbitrary: s) simp_all

lemma tensor_counts_homogeneous_nth:
  "i < length es \<Longrightarrow>
   tensor_counts_homogeneous r ls p is_root s es ! i =
     tensor_count r ls p is_root (s + raw_num_elements (take i es)) (e_num_elements (es ! i))"
proof (induction es arbitrary: s i)
  case Nil
  then show ?case by simp
next
  case (Cons e es)
  show ?case
  proof (cases i)
    case 0
    then show ?thesis by (simp add: raw_num_elements_def)
  next
    case (Suc j)
    then have "j < length es" using Cons.prems by simp
    from Cons.IH [OF this, of "s + e_num_elements e"] Suc
    show ?thesis by (simp add: raw_num_elements_def add.assoc)
  qed
qed

lemma raw_num_elements_nonneg:
  "\<forall>e \<in> set es. 0 \<le> e_num_elements e \<Longrightarrow> 0 \<le> raw_num_elements es"
  by (induction es) (simp_all add: raw_num_elements_def)

lemma per_rank_independent_of_rank:
  assumes "NcclHierarchical au sz fl (c\<lparr>GetLocalRank := r\<rparr>) entries = Some plan"
    and "NcclHierarchical au sz fl c entries = Some plan0"
  shows "num_elements plan = num_elements plan0"
    and "num_elements_per_rank plan = num_elements_per_rank plan0"
proof -
  show n: "num_elements plan = num_elements plan0"
    using plan_num_elements [OF assms(1)] plan_num_elements [OF assms(2)] by simp
  show "num_elements_per_rank plan = num_elements_per_rank plan0"
    using plan_split(1) [OF assms(1)] plan_split(1) [OF assms(2)] n by simp
qed

lemma plan_num_elements_nonneg:
  assumes p: "NcclHierarchical au sz fl c entries = Some plan"
    and e: "\<forall>e \<in> set entries. 0 \<le> e_num_elements e"
    and ls: "1 \<le> GetLocalSize c" and au: "1 \<le> au"
  shows "0 \<le> num_elements plan"
proof -
  have n: "0 \<le> raw_num_elements entries" using e by (rule raw_num_elements_nonneg)
  have d: "0 < GetLocalSize c * au" using ls au by simp
  have "0 \<le> raw_num_elements entries + GetLocalSize c * au - 1" using n d by linarith
  then have "num_elements plan =
      (if IsHomogeneous c \<and> length entries > 1
       then (raw_num_elements entries + GetLocalSize c * au - 1) div (GetLocalSize c * au)
              * (GetLocalSize c * au)
       else raw_num_elements entries)"
    using plan_num_elements [OF p] d by (simp add: c_div_nonneg)
  then show ?thesis
    using n round_up_multiple(2) [OF n d] by (auto split: if_splits)
qed

lemma tensor_counts_sum:
  assumes h: "IsHomogeneous c" and ls: "1 \<le> GetLocalSize c" and au: "1 \<le> atomic_unit"
    and e: "\<forall>e \<in> set entries. 0 \<le> e_num_elements e \<and> e_num_elements e < 2 ^ 31"
    and i: "i < length entries"
  shows "(\<Sum>r = 0..<nat (GetLocalSize c).
            rank_tensor_counts atomic_unit sz fused_len c entries (int r) ! i)
         = e_num_elements (entries ! i)
       \<and> (\<forall>r. length (rank_tensor_counts atomic_unit sz fused_len c entries r)
                = length entries)"
proof -
  have ne: "entries \<noteq> []" using i by auto
  obtain plan0 where p0: "NcclHierarchical atomic_unit sz fused_len c entries = Some plan0"
    using plan_exists [OF ne] by blast
  define p where "p = num_elements_per_rank plan0"
  have e0: "\<forall>e \<in> set entries. 0 \<le> e_num_elements e" using e by blast
  have n0: "0 \<le> num_elements plan0"
    using plan_num_elements_nonneg [OF p0 e0 ls au] .
  have p_nonneg: "0 \<le> p"
    using plan_split(1) [OF p0] h n0 ls unfolding p_def
    by (simp add: c_div_nonneg pos_imp_zdiv_nonneg_iff)
  have counts: "rank_tensor_counts atomic_unit sz fused_len c entries r =
      tensor_counts_homogeneous r (GetLocalSize c) p (r = GetLocalSize c - 1) 0 entries" for r
  proof -
    let ?c = "c\<lparr>GetLocalRank := r\<rparr>"
    obtain plan where pl: "NcclHierarchical atomic_unit sz fused_len ?c entries = Some plan"
      using plan_exists [OF ne] by blast
    have hc: "IsHomogeneous ?c" using h by simp
    have "num_elements_per_rank plan = p"
      unfolding p_def by (rule per_rank_independent_of_rank(2) [OF pl p0])
    moreover have "is_root_rank plan = (r = GetLocalSize c - 1)"
      using plan_split(3,4) [OF pl] h by simp
    ultimately show ?thesis
      using plan_tensor_counts [OF pl hc] pl by (simp add: rank_tensor_counts_def)
  qed
  let ?s = "raw_num_elements (take i entries)"
  let ?n = "e_num_elements (entries ! i)"
  have s: "0 \<le> ?s"
    using e0 by (intro raw_num_elements_nonneg) (auto dest: in_set_takeD)
  have n: "0 \<le> ?n" "?n < 2 ^ 31" using e i by simp_all
  have "(\<Sum>r = 0..<nat (GetLocalSize c).
            rank_tensor_counts atomic_unit sz fused_len c entries (int r) ! i)
        = (\<Sum>r = 0..<nat (GetLocalSize c).
            tensor_count (int r) (GetLocalSize c) p (int r = GetLocalSize c - 1) ?s ?n)"
    using i by (simp add: counts tensor_counts_homogeneous_nth)
  also have "\<dots> = ?n" by (rule rank_sum [OF p_nonneg s n ls])
  finally show ?thesis by (simp add: counts tensor_counts_homogeneous_length)
qed

lemma card_interval_overlap:
  fixes a b lo hi :: int
  shows "int (card ({a..<b} \<inter> {lo..<hi})) = max (min b hi - max a lo) 0"
proof -
  have "{a..<b} \<inter> {lo..<hi} = {max a lo..<min b hi}" by auto
  then show ?thesis by (auto simp: max_def min_def)
qed

lemma card_interval_tail:
  fixes a b top :: int
  shows "int (card ({a..<b} \<inter> {top..})) = max (b - max a top) 0"
proof -
  have "{a..<b} \<inter> {top..} = {max a top..<b}" by auto
  then show ?thesis by (auto simp: max_def min_def)
qed

lemma card_owned:
  fixes s n lo hi top :: int
  assumes "hi \<le> top"
  shows "int (card ({s..<s + n} \<inter> ({lo..<hi} \<union> (if root then {top..} else {})))) =
           max (min (s + n) hi - max s lo) 0 + (if root then max (s + n - max s top) 0 else 0)"
proof (cases root)
  case False
  then show ?thesis using card_interval_overlap [of s "s + n" lo hi] by simp
next
  case True
  have d: "({s..<s + n} \<inter> {lo..<hi}) \<inter> ({s..<s + n} \<inter> {top..}) = {}"
    using assms by auto
  have "{s..<s + n} \<inter> ({lo..<hi} \<union> {top..}) =
          ({s..<s + n} \<inter> {lo..<hi}) \<union> ({s..<s + n} \<inter> {top..})"
    by auto
  then have "card ({s..<s + n} \<inter> ({lo..<hi} \<union> {top..})) =
          card ({s..<s + n} \<inter> {lo..<hi}) + card ({s..<s + n} \<inter> {top..})"
    using d by (simp add: card_Un_disjoint)
  then show ?thesis
    using True card_interval_overlap [of s "s + n" lo hi] card_interval_tail [of s "s + n" top]
    by simp
qed

lemma tensor_count_owned:
  assumes p: "0 \<le> p" and n: "0 \<le> e_num_elements (entries ! i)"
      "e_num_elements (entries ! i) < 2 ^ 31"
    and r: "0 \<le> r" "r + 1 \<le> ls"
  shows "tensor_count r ls p (r = ls - 1) (raw_num_elements (take i entries))
           (e_num_elements (entries ! i)) =
         int (card (entry_offsets entries i \<inter> owned_offsets ls p r))"
proof -
  have le: "(r + 1) * p \<le> ls * p" using r p by (simp add: mult_right_mono)
  show ?thesis
    unfolding entry_offsets_def owned_offsets_def card_owned [OF le]
    by (rule tensor_count_eq [OF p n r])
qed

lemma rank_plan_counts:
  assumes h: "IsHomogeneous c"
    and pl: "NcclHierarchical au sz fl (c\<lparr>GetLocalRank := r\<rparr>) entries = Some plan"
  shows "tensor_counts plan =
           Some (tensor_counts_homogeneous r (GetLocalSize c) (num_elements_per_rank plan)
                   (r = GetLocalSize c - 1) 0 entries)"
    and "rank_tensor_counts au sz fl c entries r =
           tensor_counts_homogeneous r (GetLocalSize c) (num_elements_per_rank plan)
             (r = GetLocalSize c - 1) 0 entries"
proof -
  let ?c = "c\<lparr>GetLocalRank := r\<rparr>"
  have hc: "IsHomogeneous ?c" using h by simp
  have "is_root_rank plan = (r = GetLocalSize c - 1)"
    using plan_split(3,4) [OF pl] h by simp
  then show t: "tensor_counts plan =
           Some (tensor_counts_homogeneous r (GetLocalSize c) (num_elements_per_rank plan)
                   (r = GetLocalSize c - 1) 0 entries)"
    using plan_tensor_counts [OF pl hc] by simp
  show "rank_tensor_counts au sz fl c entries r =
           tensor_counts_homogeneous r (GetLocalSize c) (num_elements_per_rank plan)
             (r = GetLocalSize c - 1) 0 entries"
    using t pl by (simp add: rank_tensor_counts_def)
qed

text \<open>
  Claim C4. For every non-empty list of entries a plan is computed, and whenever its
  \<open>num_elements\<close> is not negative and \<open>local_size\<close> is at least 1,
  \<open>num_elements_per_rank\<close> is \<open>num_elements div local_size\<close> on a homogeneous cluster and 0
  otherwise, \<open>num_elements_remaining\<close> is \<open>num_elements mod local_size\<close> on a homogeneous
  cluster and \<open>num_elements\<close> otherwise, \<open>root_rank\<close> is \<open>local_size - 1\<close> on a homogeneous
  cluster and 0 otherwise, and the rank owns \<open>num_elements_per_rank +
  num_elements_remaining\<close> elements when it is the root rank and \<open>num_elements_per_rank\<close>
  when it is any other local rank. The \<open>num_elements\<close> that is split is the padded total of
  the entries on a homogeneous cluster with more than one entry and their total otherwise,
  and it is not negative when no entry has a negative element count and
  \<open>FUSION_BUFFER_ATOMIC_UNIT\<close> is at least 1.
\<close>

theorem split_per_rank_and_remaining:
  assumes ne: "entries \<noteq> []" and ls: "1 \<le> GetLocalSize c"
  shows "\<exists>plan. NcclHierarchical atomic_unit sz fused_len c entries = Some plan
       \<and> (0 \<le> num_elements plan \<longrightarrow>
            num_elements_per_rank plan =
              (if IsHomogeneous c then num_elements plan div GetLocalSize c else 0)
          \<and> num_elements_remaining plan =
              (if IsHomogeneous c then num_elements plan mod GetLocalSize c
               else num_elements plan)
          \<and> root_rank plan = (if IsHomogeneous c then GetLocalSize c - 1 else 0)
          \<and> total_num_elements plan =
              (if GetLocalRank c = root_rank plan
               then num_elements_per_rank plan + num_elements_remaining plan
               else num_elements_per_rank plan))
       \<and> num_elements plan =
            (if IsHomogeneous c \<and> length entries > 1
             then c_div (raw_num_elements entries + GetLocalSize c * atomic_unit - 1)
                    (GetLocalSize c * atomic_unit) * (GetLocalSize c * atomic_unit)
             else raw_num_elements entries)
       \<and> ((\<forall>e \<in> set entries. 0 \<le> e_num_elements e) \<and> 1 \<le> atomic_unit \<longrightarrow>
            0 \<le> num_elements plan)"
proof -
  obtain plan where p: "NcclHierarchical atomic_unit sz fused_len c entries = Some plan"
    using plan_exists [OF ne] by blast
  have a: "num_elements_per_rank plan =
              (if IsHomogeneous c then num_elements plan div GetLocalSize c else 0)
          \<and> num_elements_remaining plan =
              (if IsHomogeneous c then num_elements plan mod GetLocalSize c
               else num_elements plan)
          \<and> root_rank plan = (if IsHomogeneous c then GetLocalSize c - 1 else 0)
          \<and> total_num_elements plan =
              (if GetLocalRank c = root_rank plan
               then num_elements_per_rank plan + num_elements_remaining plan
               else num_elements_per_rank plan)"
    if n: "0 \<le> num_elements plan"
    using plan_split [OF p] n ls by (simp add: c_div_nonneg c_mod_nonneg)
  have b: "0 \<le> num_elements plan"
    if "(\<forall>e \<in> set entries. 0 \<le> e_num_elements e) \<and> 1 \<le> atomic_unit"
    using plan_num_elements_nonneg [OF p _ ls] that by blast
  show ?thesis using p a b plan_num_elements [OF p] by blast
qed

text \<open>
  Claim C5. On a homogeneous cluster with more than one fused entry a plan is computed, and
  its \<open>num_elements\<close> is \<open>((n + div - 1) / div) * div\<close> for the sum \<open>n\<close> of the entries and
  \<open>div = local_size * FUSION_BUFFER_ATOMIC_UNIT\<close>: the least multiple of \<open>div\<close> that is not
  below \<open>n\<close>. It is below \<open>n + div\<close> and divisible by \<open>local_size\<close>, the remainder
  \<open>num_elements_remaining\<close> is 0, and \<open>buffer_len\<close> is the padded \<open>num_elements\<close> times the
  element size.
\<close>

theorem fusion_padding_least_multiple:
  assumes h: "IsHomogeneous c" and m: "length entries > 1"
    and ls: "1 \<le> GetLocalSize c" and au: "1 \<le> atomic_unit"
    and n: "0 \<le> raw_num_elements entries"
  shows "\<exists>plan. NcclHierarchical atomic_unit sz fused_len c entries = Some plan
       \<and> num_elements plan =
           (raw_num_elements entries + GetLocalSize c * atomic_unit - 1)
             div (GetLocalSize c * atomic_unit) * (GetLocalSize c * atomic_unit)
       \<and> GetLocalSize c * atomic_unit dvd num_elements plan
       \<and> raw_num_elements entries \<le> num_elements plan
       \<and> (\<forall>k. GetLocalSize c * atomic_unit dvd k \<and> raw_num_elements entries \<le> k
              \<longrightarrow> num_elements plan \<le> k)
       \<and> num_elements plan < raw_num_elements entries + GetLocalSize c * atomic_unit
       \<and> GetLocalSize c dvd num_elements plan
       \<and> num_elements_remaining plan = 0
       \<and> buffer_len plan = num_elements plan * sz (dtype (tensor (hd entries)))"
proof -
  have ne: "entries \<noteq> []" using m by auto
  obtain plan where p: "NcclHierarchical atomic_unit sz fused_len c entries = Some plan"
    using plan_exists [OF ne] by blast
  show ?thesis using p padded_plan [OF h m ls au n p] by blast
qed

text \<open>
  Claim C1, as amended. On a homogeneous cluster with \<open>local_size\<close> at least 1, for every
  list of fused entries whose element counts are not negative and below \<open>2 ^ 31\<close> (so that
  a count fits the \<open>int\<close> in which it is stored), every local rank \<open>r\<close> computes a plan with
  one count per entry, and its \<open>tensor_counts[i]\<close> is the number of offsets of entry \<open>i\<close> in
  the fused buffer, from the total of the entries before it up to that total plus its own
  element count, that lie in the range the rank owns: its slice from
  \<open>r * num_elements_per_rank\<close> up to \<open>(r + 1) * num_elements_per_rank\<close> and, for the root
  rank \<open>local_size - 1\<close>, everything from \<open>local_size * num_elements_per_rank\<close> on. The
  elements that are split are the total of the entries when there is one entry, and that
  total padded to the least multiple of \<open>local_size * FUSION_BUFFER_ATOMIC_UNIT\<close> when there
  are several; \<open>num_elements_per_rank\<close> is their quotient by \<open>local_size\<close> and
  \<open>num_elements_remaining\<close> the remainder. The \<open>tensor_counts[i]\<close> of all local ranks add up
  to the element count of entry \<open>i\<close>.
\<close>

theorem tensor_counts_sum_to_entry:
  assumes h: "IsHomogeneous c" and ls: "1 \<le> GetLocalSize c" and au: "1 \<le> atomic_unit"
    and e: "\<forall>e \<in> set entries. 0 \<le> e_num_elements e \<and> e_num_elements e < 2 ^ 31"
    and i: "i < length entries"
    and r: "0 \<le> r" "r < GetLocalSize c"
  shows "\<exists>plan counts.
         NcclHierarchical atomic_unit sz fused_len (c\<lparr>GetLocalRank := r\<rparr>) entries = Some plan
       \<and> tensor_counts plan = Some counts
       \<and> rank_tensor_counts atomic_unit sz fused_len c entries r = counts
       \<and> length counts = length entries
       \<and> counts ! i =
           int (card (entry_offsets entries i \<inter>
                      owned_offsets (GetLocalSize c) (num_elements_per_rank plan) r))
       \<and> num_elements plan =
           (if length entries > 1
            then (raw_num_elements entries + GetLocalSize c * atomic_unit - 1)
                   div (GetLocalSize c * atomic_unit) * (GetLocalSize c * atomic_unit)
            else raw_num_elements entries)
       \<and> num_elements_per_rank plan = num_elements plan div GetLocalSize c
       \<and> num_elements_remaining plan = num_elements plan mod GetLocalSize c
       \<and> (\<Sum>k = 0..<nat (GetLocalSize c).
              rank_tensor_counts atomic_unit sz fused_len c entries (int k) ! i)
           = e_num_elements (entries ! i)"
proof -
  let ?c = "c\<lparr>GetLocalRank := r\<rparr>"
  let ?ls = "GetLocalSize c"
  have ne: "entries \<noteq> []" using i by auto
  obtain plan where pl: "NcclHierarchical atomic_unit sz fused_len ?c entries = Some plan"
    using plan_exists [OF ne] by blast
  define counts where
    "counts = tensor_counts_homogeneous r ?ls (num_elements_per_rank plan) (r = ?ls - 1) 0 entries"
  have hc: "IsHomogeneous ?c" and lc: "1 \<le> GetLocalSize ?c" and lc': "GetLocalSize ?c = ?ls"
    using h ls by simp_all
  have e0: "\<forall>e \<in> set entries. 0 \<le> e_num_elements e" using e by blast
  have n0: "0 \<le> num_elements plan" using plan_num_elements_nonneg [OF pl e0 lc au] .
  have pr: "num_elements_per_rank plan = num_elements plan div ?ls"
    and rm: "num_elements_remaining plan = num_elements plan mod ?ls"
    using plan_split(1,2) [OF pl] h n0 ls by (simp_all add: c_div_nonneg c_mod_nonneg)
  have p0: "0 \<le> num_elements_per_rank plan"
    unfolding pr using n0 ls by (simp add: pos_imp_zdiv_nonneg_iff)
  have n: "0 \<le> raw_num_elements entries" using e0 by (rule raw_num_elements_nonneg)
  have d: "0 < ?ls * atomic_unit" using ls au by simp
  have "0 \<le> raw_num_elements entries + ?ls * atomic_unit - 1" using n d by linarith
  then have ne': "num_elements plan =
           (if length entries > 1
            then (raw_num_elements entries + ?ls * atomic_unit - 1)
                   div (?ls * atomic_unit) * (?ls * atomic_unit)
            else raw_num_elements entries)"
    using plan_num_elements [OF pl] h d by (simp add: c_div_nonneg)
  have tc: "tensor_counts plan = Some counts"
    and rc: "rank_tensor_counts atomic_unit sz fused_len c entries r = counts"
    unfolding counts_def by (rule rank_plan_counts [OF h pl])+
  have len: "length counts = length entries"
    unfolding counts_def by (rule tensor_counts_homogeneous_length)
  have ni: "0 \<le> e_num_elements (entries ! i)" "e_num_elements (entries ! i) < 2 ^ 31"
    using e i by simp_all
  have r1: "r + 1 \<le> ?ls" using r(2) by simp
  have "counts ! i =
      tensor_count r ?ls (num_elements_per_rank plan) (r = ?ls - 1)
        (raw_num_elements (take i entries)) (e_num_elements (entries ! i))"
    unfolding counts_def using tensor_counts_homogeneous_nth [OF i, of r ?ls _ _ 0] by simp
  also have "\<dots> = int (card (entry_offsets entries i \<inter>
                      owned_offsets ?ls (num_elements_per_rank plan) r))"
    by (rule tensor_count_owned [OF p0 ni r(1) r1])
  finally have own: "counts ! i =
      int (card (entry_offsets entries i \<inter> owned_offsets ?ls (num_elements_per_rank plan) r))" .
  have sum: "(\<Sum>k = 0..<nat ?ls. rank_tensor_counts atomic_unit sz fused_len c entries (int k) ! i)
           = e_num_elements (entries ! i)"
    using tensor_counts_sum [OF h ls au e i, of sz fused_len] by blast
  show ?thesis
    apply (rule exI [of _ plan])
    apply (rule exI [of _ counts])
    apply (intro conjI)
            apply (rule pl)
           apply (rule tc)
          apply (rule rc)
         apply (rule len)
        apply (rule own)
       apply (rule ne')
      apply (rule pr)
     apply (rule rm)
    apply (rule sum)
    done
qed

lemma e_num_elements_example: "e_num_elements (example_entry name n ev cb) = n"
  by (simp add: e_num_elements_def example_entry_def shape_num_elements_def)

lemma example_plan:
  "NcclHierarchical 64 (\<lambda>_. 4) 24000 (example_controller\<lparr>GetLocalRank := r\<rparr>) example_entries =
     Some \<lparr>num_elements = 6144, buffer_len = 24576, num_elements_per_rank = 1536,
           buffer_len_per_rank = 6144, num_elements_remaining = 0, buffer_len_remaining = 0,
           root_rank = 3, is_root_rank = (r = 3),
           total_num_elements = 1536, total_buffer_len = 6144,
           tensor_counts = Some (tensor_counts_homogeneous r 4 1536 (r = 3) 0 example_entries)\<rparr>"
  by (simp add: NcclHierarchical_def example_entries_def example_controller_def
      raw_num_elements_def e_num_elements_example c_div_def c_mod_def Let_def
      signed_divide_int_def signed_modulo_int_def)

lemma int_of_int64_small: "0 \<le> x \<Longrightarrow> x < 2147483648 \<Longrightarrow> int_of_int64 x = x"
  using int_of_int64_id [of x] by simp

lemma example_counts_of:
  "rank_tensor_counts 64 (\<lambda>_. 4) 24000 example_controller example_entries r =
     tensor_counts_homogeneous r 4 1536 (r = 3) 0 example_entries"
  by (simp add: rank_tensor_counts_def example_plan)

lemma example_counts:
  "rank_tensor_counts 64 (\<lambda>_. 4) 24000 example_controller example_entries 0 = [1000, 536, 0]"
  "rank_tensor_counts 64 (\<lambda>_. 4) 24000 example_controller example_entries 1 = [0, 1464, 72]"
  "rank_tensor_counts 64 (\<lambda>_. 4) 24000 example_controller example_entries 2 = [0, 0, 1536]"
  "rank_tensor_counts 64 (\<lambda>_. 4) 24000 example_controller example_entries 3 = [0, 0, 1392]"
  unfolding example_counts_of
  by (simp_all add: example_entries_def e_num_elements_example tensor_count_def
      int_of_int64_small)

lemma large_plan:
  "NcclHierarchical 64 (\<lambda>_. 4) 0 (large_controller\<lparr>GetLocalRank := r\<rparr>) large_entries =
     Some \<lparr>num_elements = 4294967296, buffer_len = 17179869184,
           num_elements_per_rank = 2147483648,
           buffer_len_per_rank = 8589934592, num_elements_remaining = 0, buffer_len_remaining = 0,
           root_rank = 1, is_root_rank = (r = 1),
           total_num_elements = 2147483648, total_buffer_len = 8589934592,
           tensor_counts = Some (tensor_counts_homogeneous r 2 2147483648 (r = 1) 0 large_entries)\<rparr>"
  by (simp add: NcclHierarchical_def large_entries_def large_controller_def example_entry_def
      raw_num_elements_def e_num_elements_def shape_num_elements_def c_div_def c_mod_def Let_def
      signed_divide_int_def signed_modulo_int_def)

lemma int_of_int64_2_31: "int_of_int64 2147483648 = - 2147483648"
  by (simp add: int_of_int64_def)

lemma int_of_int64_min: "int_of_int64 (- 2147483648) = - 2147483648"
  using int_of_int64_id [of "- 2147483648"] by simp

lemma large_counts_of:
  "rank_tensor_counts 64 (\<lambda>_. 4) 0 large_controller large_entries r =
     tensor_counts_homogeneous r 2 2147483648 (r = 1) 0 large_entries"
  by (simp add: rank_tensor_counts_def large_plan)

lemma large_counts:
  "rank_tensor_counts 64 (\<lambda>_. 4) 0 large_controller large_entries 0 = [- 2147483648]"
  "rank_tensor_counts 64 (\<lambda>_. 4) 0 large_controller large_entries 1 = [- 2147483648]"
  unfolding large_counts_of
  by (simp_all add: large_entries_def e_num_elements_example tensor_count_def
      int_of_int64_2_31 int_of_int64_min int_of_int64_small)

text \<open>
  Claim C1 as it was stated fails in two places. For entries of 1000, 2000 and 3000
  elements and four local ranks the fused total of 6000 is padded to 6144, so that
  \<open>num_elements_per_rank\<close> is 1536 and not 1500. And for one tensor of \<open>2 ^ 32\<close> elements on
  two local ranks, each rank owns \<open>2 ^ 31\<close> elements, which is stored in the \<open>int\<close> as
  \<open>- 2 ^ 31\<close>: the counts of the two ranks add up to \<open>- 2 ^ 32\<close>.
\<close>

theorem tensor_counts_claim_counterexample:
  "map_option num_elements_per_rank
     (NcclHierarchical 64 (\<lambda>_. 4) 24000 example_controller example_entries) \<noteq> Some 1500
 \<and> (\<Sum>r = 0..<nat (GetLocalSize large_controller).
        rank_tensor_counts 64 (\<lambda>_. 4) 0 large_controller large_entries (int r) ! 0)
     \<noteq> e_num_elements (large_entries ! 0)"
proof -
  have "example_controller\<lparr>GetLocalRank := 0\<rparr> = example_controller"
    by (simp add: example_controller_def)
  note plan = example_plan [of 0, unfolded this]
  have "nat (GetLocalSize large_controller) = Suc (Suc 0)"
    by (simp add: large_controller_def)
  then have b: "(\<Sum>r = 0..<nat (GetLocalSize large_controller).
        rank_tensor_counts 64 (\<lambda>_. 4) 0 large_controller large_entries (int r) ! 0)
      = - 4294967296"
    using large_counts by simp
  have c: "e_num_elements (large_entries ! 0) = 4294967296"
    by (simp add: large_entries_def e_num_elements_example)
  show ?thesis using b c by (simp add: plan)
qed

text \<open>
  The amended claim on the three gradients, at local rank 1: it owns the offsets from 1536
  up to 3072, the second gradient lies at the offsets from 1000 up to 3000, and the count
  is 1464. The counts of the four ranks for that gradient add up to its 2000 elements.
\<close>

theorem tensor_counts_sum_to_entry_witness:
  "IsHomogeneous example_controller \<and> GetLocalSize example_controller = 4
 \<and> map e_num_elements example_entries = [1000, 2000, 3000]
 \<and> rank_tensor_counts 64 (\<lambda>_. 4) 24000 example_controller example_entries 1 = [0, 1464, 72]
 \<and> entry_offsets example_entries 1 = {1000..<3000}
 \<and> owned_offsets 4 1536 1 = {1536..<3072}
 \<and> int (card (entry_offsets example_entries 1 \<inter> owned_offsets 4 1536 1)) = 1464
 \<and> (\<Sum>k = 0..<nat (GetLocalSize example_controller).
        rank_tensor_counts 64 (\<lambda>_. 4) 24000 example_controller example_entries (int k) ! 1)
     = 2000
 \<and> map_option (\<lambda>plan. (num_elements plan, num_elements_per_rank plan,
                        num_elements_remaining plan))
       (NcclHierarchical 64 (\<lambda>_. 4) 24000 (example_controller\<lparr>GetLocalRank := 1\<rparr>)
          example_entries)
     = Some ((6000 + 4 * 64 - 1) div (4 * 64) * (4 * 64), 1536, 0)"
proof -
  have h: "IsHomogeneous example_controller" and ls: "1 \<le> GetLocalSize example_controller"
    and l4: "GetLocalSize example_controller = 4"
    by (simp_all add: example_controller_def)
  have au: "(1::int) \<le> 64" by simp
  have m: "map e_num_elements example_entries = [1000, 2000, 3000]"
    by (simp add: example_entries_def e_num_elements_example)
  have e: "\<forall>e \<in> set example_entries. 0 \<le> e_num_elements e \<and> e_num_elements e < 2 ^ 31"
    by (simp add: example_entries_def e_num_elements_example)
  have i: "1 < length example_entries" by (simp add: example_entries_def)
  have r: "(0::int) \<le> 1" "1 < GetLocalSize example_controller" using l4 by simp_all
  have n: "e_num_elements (example_entries ! 1) = 2000"
    by (simp add: example_entries_def e_num_elements_example)
  have eo: "entry_offsets example_entries 1 = {1000..<3000}"
    by (simp add: entry_offsets_def raw_num_elements_def example_entries_def
        e_num_elements_example)
  have oo: "owned_offsets 4 1536 1 = {1536..<3072}" by (simp add: owned_offsets_def)
  obtain plan counts where
    pl: "NcclHierarchical 64 (\<lambda>_. 4) 24000 (example_controller\<lparr>GetLocalRank := 1\<rparr>)
           example_entries = Some plan"
    and rc: "rank_tensor_counts 64 (\<lambda>_. 4) 24000 example_controller example_entries 1 = counts"
    and own: "counts ! 1 =
           int (card (entry_offsets example_entries 1 \<inter>
                      owned_offsets (GetLocalSize example_controller)
                        (num_elements_per_rank plan) 1))"
    and sum: "(\<Sum>k = 0..<nat (GetLocalSize example_controller).
              rank_tensor_counts 64 (\<lambda>_. 4) 24000 example_controller example_entries (int k) ! 1)
           = e_num_elements (example_entries ! 1)"
    using tensor_counts_sum_to_entry [OF h ls au e i r, of "\<lambda>_. 4" 24000] by blast
  have pr: "num_elements_per_rank plan = 1536" using pl example_plan [of 1] by auto
  have c1: "rank_tensor_counts 64 (\<lambda>_. 4) 24000 example_controller example_entries 1
              = [0, 1464, 72]"
    by (rule example_counts(2))
  have "counts ! 1 = 1464" using rc c1 by auto
  then have cd: "int (card (entry_offsets example_entries 1 \<inter> owned_offsets 4 1536 1)) = 1464"
    using own pr l4 by simp
  have p: "map_option (\<lambda>plan. (num_elements plan, num_elements_per_rank plan,
                        num_elements_remaining plan))
       (NcclHierarchical 64 (\<lambda>_. 4) 24000 (example_controller\<lparr>GetLocalRank := 1\<rparr>)
          example_entries)
     = Some ((6000 + 4 * 64 - 1) div (4 * 64) * (4 * 64), 1536, 0)"
    by (simp add: example_plan)
  show ?thesis using h l4 m c1 eo oo cd sum n p by simp
qed

text \<open>Claim C4 on the three gradients, at the root rank 3.\<close>

theorem split_per_rank_and_remaining_witness:
  "example_entries \<noteq> [] \<and> 1 \<le> GetLocalSize (example_controller\<lparr>GetLocalRank := 3\<rparr>)
 \<and> map_option
       (\<lambda>plan. (num_elements plan, num_elements_per_rank plan, num_elements_remaining plan,
                root_rank plan, total_num_elements plan))
       (NcclHierarchical 64 (\<lambda>_. 4) 24000 (example_controller\<lparr>GetLocalRank := 3\<rparr>)
          example_entries)
     = Some (6144, 6144 div 4, 6144 mod 4, 3, 1536)"
proof -
  let ?c = "example_controller\<lparr>GetLocalRank := 3\<rparr>"
  have ne: "example_entries \<noteq> []" by (simp add: example_entries_def)
  have ls: "1 \<le> GetLocalSize ?c" and h: "IsHomogeneous ?c" and lr: "GetLocalRank ?c = 3"
    and l4: "GetLocalSize ?c = 4"
    by (simp_all add: example_controller_def)
  obtain plan where p: "NcclHierarchical 64 (\<lambda>_. 4) 24000 ?c example_entries = Some plan"
    and s: "0 \<le> num_elements plan \<longrightarrow>
            num_elements_per_rank plan =
              (if IsHomogeneous ?c then num_elements plan div GetLocalSize ?c else 0)
          \<and> num_elements_remaining plan =
              (if IsHomogeneous ?c then num_elements plan mod GetLocalSize ?c
               else num_elements plan)
          \<and> root_rank plan = (if IsHomogeneous ?c then GetLocalSize ?c - 1 else 0)
          \<and> total_num_elements plan =
              (if GetLocalRank ?c = root_rank plan
               then num_elements_per_rank plan + num_elements_remaining plan
               else num_elements_per_rank plan)"
    using split_per_rank_and_remaining [OF ne ls, of 64 "\<lambda>_. 4" 24000] by blast
  have n: "num_elements plan = 6144" using p example_plan [of 3] by auto
  have "num_elements_per_rank plan = 6144 div 4 \<and> num_elements_remaining plan = 6144 mod 4
      \<and> root_rank plan = 3 \<and> total_num_elements plan = 1536"
    using s n h lr l4 by simp
  then show ?thesis using p n ls ne by simp
qed

text \<open>Claim C5 on the three gradients: 6000 elements are padded to 6144.\<close>

theorem fusion_padding_least_multiple_witness:
  "IsHomogeneous example_controller \<and> length example_entries > 1
 \<and> raw_num_elements example_entries = 6000
 \<and> map_option
       (\<lambda>plan. (num_elements plan, num_elements_remaining plan, buffer_len plan))
       (NcclHierarchical 64 (\<lambda>_. 4) 24000 example_controller example_entries)
     = Some ((6000 + 4 * 64 - 1) div (4 * 64) * (4 * 64), 0, 6144 * 4)"
proof -
  have h: "IsHomogeneous example_controller" and ls: "1 \<le> GetLocalSize example_controller"
    and l4: "GetLocalSize example_controller = 4"
    by (simp_all add: example_controller_def)
  have m: "length example_entries > 1" by (simp add: example_entries_def)
  have au: "(1::int) \<le> 64" by simp
  have r: "raw_num_elements example_entries = 6000"
    by (simp add: raw_num_elements_def example_entries_def e_num_elements_example)
  then have n: "0 \<le> raw_num_elements example_entries" by simp
  obtain plan where
    p: "NcclHierarchical 64 (\<lambda>_. 4) 24000 example_controller example_entries = Some plan"
    and v: "num_elements plan =
           (raw_num_elements example_entries + GetLocalSize example_controller * 64 - 1)
             div (GetLocalSize example_controller * 64) * (GetLocalSize example_controller * 64)"
      "num_elements_remaining plan = 0"
      "buffer_len plan = num_elements plan * (\<lambda>_. 4) (dtype (tensor (hd example_entries)))"
    using fusion_padding_least_multiple [OF h m ls au n, of "\<lambda>_. 4" 24000] by blast
  have "num_elements plan = 6144 \<and> num_elements_remaining plan = 0 \<and> buffer_len plan = 24576"
    using v r l4 by simp
  then show ?thesis using p h m r by simp
qed

section \<open>Enqueue, lifecycle queries and shutdown\<close>

lemma table_find_None_iff: "table_find table name = None \<longleftrightarrow> name \<notin> fst ` set table"
  by (simp add: table_find_def map_of_eq_None_iff)

lemma table_emplace_fresh:
  "name \<notin> fst ` set table \<Longrightarrow> table_emplace table name e = table @ [(name, e)]"
  using table_find_None_iff [of table name]
  by (simp add: table_emplace_def table_find_def)

lemma error_statuses:
  "\<not> ok SHUT_DOWN_ERROR" "\<not> ok DUPLICATE_NAME_ERROR" "ok Status_OK"
  "SHUT_DOWN_ERROR \<noteq> DUPLICATE_NAME_ERROR" "\<not> in_progress SHUT_DOWN_ERROR"
  by (simp_all add: SHUT_DOWN_ERROR_def DUPLICATE_NAME_ERROR_def Status_OK_def
      UnknownError_def InvalidArgument_def)

lemma allreduce_cases:
  "EnqueueTensorAllreduce g ctx t out ev name dev cb =
     (if shut_down g then (SHUT_DOWN_ERROR, g)
      else if name \<in> fst ` set (tensor_table g) then (DUPLICATE_NAME_ERROR, g)
      else (Status_OK,
            g\<lparr>tensor_table := tensor_table g @
                 [(name, \<lparr>tensor_name = name, op_context = ctx, tensor = t, output_tensor = out,
                    entry_root_rank = 0, ready_event = ev, device = dev, callback = cb\<rparr>)],
              message_queue := message_queue g @
                 [\<lparr>request_rank = GetRank (controller g), request_tensor_name = name,
                   tensor_type = dtype t, request_root_rank = None, request_device = dev,
                   request_type = ALLREDUCE, tensor_shape = shape t\<rparr>]\<rparr>))"
  using table_find_None_iff [of "tensor_table g" name]
  by (simp add: EnqueueTensorAllreduce_def Let_def table_emplace_fresh)

lemma allgather_cases:
  "EnqueueTensorAllgather g ctx t ev name dev cb =
     (if shut_down g then (SHUT_DOWN_ERROR, g)
      else if name \<in> fst ` set (tensor_table g) then (DUPLICATE_NAME_ERROR, g)
      else (Status_OK,
            g\<lparr>tensor_table := tensor_table g @
                 [(name, \<lparr>tensor_name = name, op_context = ctx, tensor = t, output_tensor = None,
                    entry_root_rank = 0, ready_event = ev, device = dev, callback = cb\<rparr>)],
              message_queue := message_queue g @
                 [\<lparr>request_rank = GetRank (controller g), request_tensor_name = name,
                   tensor_type = dtype t, request_root_rank = None, request_device = dev,
                   request_type = ALLGATHER, tensor_shape = shape t\<rparr>]\<rparr>))"
  using table_find_None_iff [of "tensor_table g" name]
  by (simp add: EnqueueTensorAllgather_def Let_def table_emplace_fresh)

lemma broadcast_cases:
  "EnqueueTensorBroadcast g ctx t out root ev name dev cb =
     (if shut_down g then (SHUT_DOWN_ERROR, g)
      else if name \<in> fst ` set (tensor_table g) then (DUPLICATE_NAME_ERROR, g)
      else (Status_OK,
            g\<lparr>tensor_table := tensor_table g @
                 [(name, \<lparr>tensor_name = name, op_context = ctx, tensor = t, output_tensor = out,
                    entry_root_rank = root, ready_event = ev, device = dev, callback = cb\<rparr>)],
              message_queue := message_queue g @
                 [\<lparr>request_rank = GetRank (controller g), request_tensor_name = name,
                   tensor_type = dtype t, request_root_rank = Some root, request_device = dev,
                   request_type = BROADCAST, tensor_shape = shape t\<rparr>]\<rparr>))"
  using table_find_None_iff [of "tensor_table g" name]
  by (simp add: EnqueueTensorBroadcast_def Let_def table_emplace_fresh)

text \<open>
  Claim C2. Each of \<open>EnqueueTensorAllreduce\<close>, \<open>EnqueueTensorAllgather\<close> and
  \<open>EnqueueTensorBroadcast\<close> returns the shutdown error and changes nothing when the
  shutdown flag is set; otherwise it returns the duplicate-name error and changes nothing
  when the name has an outstanding entry; otherwise it returns OK, adds exactly one entry
  under the name to the tensor table and pushes exactly one request onto the message queue.
  The two errors are not OK and differ from each other.
\<close>

theorem enqueue_status_and_effect:
  "enqueue_contract g name ALLREDUCE cb (EnqueueTensorAllreduce g ctx t out ev name dev cb)
 \<and> enqueue_contract g name ALLGATHER cb (EnqueueTensorAllgather g ctx t ev name dev cb)
 \<and> enqueue_contract g name BROADCAST cb (EnqueueTensorBroadcast g ctx t out root ev name dev cb)
 \<and> \<not> ok SHUT_DOWN_ERROR \<and> \<not> ok DUPLICATE_NAME_ERROR \<and> ok Status_OK
 \<and> SHUT_DOWN_ERROR \<noteq> DUPLICATE_NAME_ERROR"
  by (simp add: enqueue_contract_def allreduce_cases allgather_cases broadcast_cases
      error_statuses)

text \<open>
  Claim C9. While the initialization is not done, \<open>horovod_rank\<close>, \<open>horovod_local_rank\<close>,
  \<open>horovod_size\<close>, \<open>horovod_local_size\<close> and \<open>horovod_mpi_threads_supported\<close> return
  \<open>- 1\<close>; once it is done each returns the value of the controller (1 or 0 for the
  thread support).
\<close>

theorem horovod_queries:
  "(\<not> initialization_done g \<longrightarrow>
      horovod_rank g = - 1 \<and> horovod_local_rank g = - 1 \<and> horovod_size g = - 1
      \<and> horovod_local_size g = - 1 \<and> horovod_mpi_threads_supported g = - 1)
 \<and> (initialization_done g \<longrightarrow>
      horovod_rank g = GetRank (controller g)
      \<and> horovod_local_rank g = GetLocalRank (controller g)
      \<and> horovod_size g = GetSize (controller g)
      \<and> horovod_local_size g = GetLocalSize (controller g)
      \<and> horovod_mpi_threads_supported g = (if IsMpiThreadsSupported (controller g) then 1 else 0))"
  by (simp add: horovod_rank_def horovod_local_rank_def horovod_size_def
      horovod_local_size_def horovod_mpi_threads_supported_def)

lemma pop_all_empty: "pop_all queue = []"
  by (induction queue) simp_all

text \<open>
  Claim C6. With N entries in the tensor table, the shutdown sequence calls the callback of
  each of the N entries once, with the shutdown error, and leaves the tensor table and the
  message queue empty.
\<close>

theorem shutdown_sequence_notifies_all:
  "snd (shutdown_sequence state) =
     map (\<lambda>e. InvokeCallback (callback (snd e)) SHUT_DOWN_ERROR) (tensor_table state)
 \<and> length (snd (shutdown_sequence state)) = length (tensor_table state)
 \<and> tensor_table (fst (shutdown_sequence state)) = []
 \<and> message_queue (fst (shutdown_sequence state)) = []
 \<and> shut_down (fst (shutdown_sequence state))
 \<and> \<not> ok SHUT_DOWN_ERROR"
  by (simp add: shutdown_sequence_def Let_def pop_all_empty error_statuses comp_def)

text \<open>
  Claim C3, as amended. \<open>Enabled\<close> returns true exactly when the first entry is not on
  the host device, whatever the parameter manager says about the hierarchical mode; for a
  first entry on the host device it returns false.
\<close>

theorem Enabled_ignores_hierarchical_mode:
  "Enabled cpu_device_id param_manager (first_entry # entries) response =
     Some (device first_entry \<noteq> cpu_device_id)"
  by (simp add: Enabled_def)

text \<open>
  Claim C3 as it was stated fails: with the hierarchical allreduce turned off and the
  first entry on device 0, \<open>Enabled\<close> returns true.
\<close>

theorem Enabled_hierarchical_counterexample:
  "Enabled (- 1) \<lparr>HierarchicalAllreduce = False, HierarchicalAllgather = False\<rparr>
     [example_entry ''grad_a'' 1000 None 1] example_response = Some True"
  by (simp add: Enabled_def example_entry_def)

text \<open>
  Claim C2 on the example state: an allreduce after the shutdown, an allgather under the
  outstanding name and a broadcast under a new name.
\<close>

theorem enqueue_status_and_effect_witness:
  "EnqueueTensorAllreduce (example_state\<lparr>shut_down := True\<rparr>) 0 example_tensor
     (Some example_tensor) None ''grad_b'' 0 2
     = (SHUT_DOWN_ERROR, example_state\<lparr>shut_down := True\<rparr>)
 \<and> EnqueueTensorAllgather example_state 0 example_tensor None ''grad_a'' 0 2
     = (DUPLICATE_NAME_ERROR, example_state)
 \<and> fst (EnqueueTensorBroadcast example_state 0 example_tensor (Some example_tensor) 0 None
          ''grad_b'' 0 2) = Status_OK
 \<and> map fst (tensor_table (snd (EnqueueTensorBroadcast example_state 0 example_tensor
          (Some example_tensor) 0 None ''grad_b'' 0 2))) = [''grad_a'', ''grad_b'']
 \<and> length (message_queue (snd (EnqueueTensorBroadcast example_state 0 example_tensor
          (Some example_tensor) 0 None ''grad_b'' 0 2))) = 1"
proof -
  let ?down = "example_state\<lparr>shut_down := True\<rparr>"
  let ?r = "EnqueueTensorBroadcast example_state 0 example_tensor (Some example_tensor) 0 None
          ''grad_b'' 0 2"
  have a: "enqueue_contract ?down ''grad_b'' ALLREDUCE 2
     (EnqueueTensorAllreduce ?down 0 example_tensor (Some example_tensor) None ''grad_b'' 0 2)"
    using enqueue_status_and_effect [of ?down "''grad_b''" 2 0 example_tensor
        "Some example_tensor" None 0 0] by (rule conjunct1)
  have b: "enqueue_contract example_state ''grad_a'' ALLGATHER 2
     (EnqueueTensorAllgather example_state 0 example_tensor None ''grad_a'' 0 2)"
    using enqueue_status_and_effect [of example_state "''grad_a''" 2 0 example_tensor
        "Some example_tensor" None 0 0] by (elim conjE)
  have c: "enqueue_contract example_state ''grad_b'' BROADCAST 2 ?r"
    using enqueue_status_and_effect [of example_state "''grad_b''" 2 0 example_tensor
        "Some example_tensor" None 0 0] by (elim conjE)
  have s: "shut_down ?down" "\<not> shut_down example_state"
    "''grad_a'' \<in> fst ` set (tensor_table example_state)"
    "''grad_b'' \<notin> fst ` set (tensor_table example_state)"
    "tensor_table example_state = [(''grad_a'', example_entry ''grad_a'' 1000 None 1)]"
    "message_queue example_state = []"
    by (simp_all add: example_state_def)
  have a': "EnqueueTensorAllreduce ?down 0 example_tensor (Some example_tensor) None ''grad_b'' 0 2
              = (SHUT_DOWN_ERROR, ?down)"
    using a s(1) by (simp add: enqueue_contract_def)
  have b': "EnqueueTensorAllgather example_state 0 example_tensor None ''grad_a'' 0 2
              = (DUPLICATE_NAME_ERROR, example_state)"
    using b s(2,3) by (simp add: enqueue_contract_def)
  have c': "fst ?r = Status_OK"
    "butlast (tensor_table (snd ?r)) = tensor_table example_state"
    "length (tensor_table (snd ?r)) = length (tensor_table example_state) + 1"
    "fst (last (tensor_table (snd ?r))) = ''grad_b''"
    "length (message_queue (snd ?r)) = length (message_queue example_state) + 1"
    using c s(2,4) by (simp_all add: enqueue_contract_def)
  have ne: "tensor_table (snd ?r) \<noteq> []" using c'(3) by auto
  have "map fst (tensor_table (snd ?r)) =
          map fst (butlast (tensor_table (snd ?r)) @ [last (tensor_table (snd ?r))])"
    using ne by simp
  also have "\<dots> = map fst (butlast (tensor_table (snd ?r))) @ [fst (last (tensor_table (snd ?r)))]"
    by simp
  finally have "map fst (tensor_table (snd ?r)) = map fst (tensor_table example_state) @ [''grad_b'']"
    using c'(2,4) by simp
  then have m: "map fst (tensor_table (snd ?r)) = [''grad_a'', ''grad_b'']"
    using s(5) by simp
  show ?thesis using a' b' c'(1) m c'(5) s(6) by simp
qed

text \<open>Claim C9 on the example state, with and without the initialization done.\<close>

theorem horovod_queries_witness:
  "initialization_done example_state \<and> horovod_rank example_state = 4
 \<and> horovod_local_rank example_state = 0 \<and> horovod_size example_state = 8
 \<and> horovod_local_size example_state = 4 \<and> horovod_mpi_threads_supported example_state = 1
 \<and> \<not> initialization_done (example_state\<lparr>initialization_done := False\<rparr>)
 \<and> horovod_rank (example_state\<lparr>initialization_done := False\<rparr>) = - 1
 \<and> horovod_local_rank (example_state\<lparr>initialization_done := False\<rparr>) = - 1
 \<and> horovod_size (example_state\<lparr>initialization_done := False\<rparr>) = - 1
 \<and> horovod_local_size (example_state\<lparr>initialization_done := False\<rparr>) = - 1
 \<and> horovod_mpi_threads_supported (example_state\<lparr>initialization_done := False\<rparr>) = - 1"
proof -
  have i: "initialization_done example_state"
    "\<not> initialization_done (example_state\<lparr>initialization_done := False\<rparr>)"
    "controller example_state = example_controller"
    by (simp_all add: example_state_def)
  have c: "GetRank example_controller = 4" "GetLocalRank example_controller = 0"
    "GetSize example_controller = 8" "GetLocalSize example_controller = 4"
    "IsMpiThreadsSupported example_controller"
    by (simp_all add: example_controller_def)
  show ?thesis
    using horovod_queries [of example_state]
      horovod_queries [of "example_state\<lparr>initialization_done := False\<rparr>"] i c
    by simp
qed

section \<open>Readiness and exceptions in PerformOperation\<close>

text \<open>poll_pass facts\<close>

lemma poll_pass_polls:
  "poll_pass rdy k waiting = (waiting', acts) \<Longrightarrow> ReadyPoll ev b \<in> set acts \<Longrightarrow>
   ev \<in> snd ` set waiting \<and> rdy ev k = b"
proof (induction waiting arbitrary: waiting' acts)
  case Nil
  then show ?case by simp
next
  case (Cons w waiting)
  obtain name ev' where w: "w = (name, ev')" by (cases w)
  obtain w1 a1 where r: "poll_pass rdy k waiting = (w1, a1)" by (cases "poll_pass rdy k waiting")
  from Cons.prems w r have "ReadyPoll ev b \<in> set a1 \<or> (ev = ev' \<and> rdy ev' k = b)"
    by (auto split: if_splits)
  then show ?case using Cons.IH [OF r] w by auto
qed

lemma poll_pass_remaining:
  "poll_pass rdy k waiting = (waiting', acts) \<Longrightarrow>
   set waiting' \<subseteq> set waiting \<and>
   (\<forall>w \<in> set waiting. w \<in> set waiting' \<or> ReadyPoll (snd w) True \<in> set acts)"
proof (induction waiting arbitrary: waiting' acts)
  case Nil
  then show ?case by simp
next
  case (Cons w waiting)
  obtain name ev' where w: "w = (name, ev')" by (cases w)
  obtain w1 a1 where r: "poll_pass rdy k waiting = (w1, a1)" by (cases "poll_pass rdy k waiting")
  note ih = Cons.IH [OF r]
  show ?case
  proof (cases "rdy ev' k")
    case True
    then have "waiting' = w1" "acts = [ReadyPoll ev' True, TimelineActivityEnd name,
                TimelineActivityStart name ''WAIT_FOR_OTHER_TENSOR_DATA''] @ a1"
      using Cons.prems w r by simp_all
    then show ?thesis using ih w by auto
  next
    case False
    then have "waiting' = (name, ev') # w1" "acts = ReadyPoll ev' False # a1"
      using Cons.prems w r by simp_all
    then show ?thesis using ih w by auto
  qed
qed

lemma poll_pass_no_execute:
  "poll_pass rdy k waiting = (waiting', acts) \<Longrightarrow> ExecuteOperationCall es r \<notin> set acts"
proof (induction waiting arbitrary: waiting' acts)
  case Nil
  then show ?case by simp
next
  case (Cons w waiting)
  obtain name ev' where w: "w = (name, ev')" by (cases w)
  obtain w1 a1 where r: "poll_pass rdy k waiting = (w1, a1)" by (cases "poll_pass rdy k waiting")
  from Cons.prems w r Cons.IH [OF r] show ?case by (auto split: if_splits)
qed

lemma poll_pass_wait_start:
  "poll_pass rdy k waiting = (waiting', acts) \<Longrightarrow>
   TimelineActivityStart name ''WAIT_FOR_DATA'' \<notin> set acts"
proof (induction waiting arbitrary: waiting' acts)
  case Nil
  then show ?case by simp
next
  case (Cons w waiting)
  obtain name' ev' where w: "w = (name', ev')" by (cases w)
  obtain w1 a1 where r: "poll_pass rdy k waiting = (w1, a1)" by (cases "poll_pass rdy k waiting")
  from Cons.prems w r Cons.IH [OF r] show ?case by (auto split: if_splits)
qed

text \<open>wait_loop facts\<close>

lemma wait_loop_polls:
  "wait_loop fuel rdy k waiting = (ended, acts) \<Longrightarrow> ReadyPoll ev b \<in> set acts \<Longrightarrow>
   ev \<in> snd ` set waiting \<and> (\<exists>j. rdy ev j = b)"
proof (induction fuel rdy k waiting arbitrary: ended acts rule: wait_loop.induct)
  case (1 fuel rdy k)
  then show ?case by simp
next
  case (2 rdy k w ws)
  then show ?case by simp
next
  case (3 fuel rdy k w ws)
  obtain w1 a1 where p: "poll_pass rdy k (w # ws) = (w1, a1)"
    by (cases "poll_pass rdy k (w # ws)")
  obtain e2 a2 where l: "wait_loop fuel rdy (Suc k) w1 = (e2, a2)"
    by (cases "wait_loop fuel rdy (Suc k) w1")
  have acts: "acts = a1 @ [Sleep] @ a2" using "3.prems"(1) p l by simp
  then consider "ReadyPoll ev b \<in> set a1" | "ReadyPoll ev b \<in> set a2"
    using "3.prems"(2) by auto
  then show ?case
  proof cases
    case 1
    then show ?thesis using poll_pass_polls [OF p] by blast
  next
    case 2
    have "ev \<in> snd ` set w1 \<and> (\<exists>j. rdy ev j = b)"
      using "3.IH" [OF p [symmetric] refl l 2] .
    then show ?thesis using poll_pass_remaining [OF p] by blast
  qed
qed

lemma wait_loop_ended:
  "wait_loop fuel rdy k waiting = (True, acts) \<Longrightarrow>
   \<forall>w \<in> set waiting. ReadyPoll (snd w) True \<in> set acts"
proof (induction fuel rdy k waiting arbitrary: acts rule: wait_loop.induct)
  case (1 fuel rdy k)
  then show ?case by simp
next
  case (2 rdy k w ws)
  then show ?case by simp
next
  case (3 fuel rdy k w ws)
  obtain w1 a1 where p: "poll_pass rdy k (w # ws) = (w1, a1)"
    by (cases "poll_pass rdy k (w # ws)")
  obtain e2 a2 where l: "wait_loop fuel rdy (Suc k) w1 = (e2, a2)"
    by (cases "wait_loop fuel rdy (Suc k) w1")
  have acts: "acts = a1 @ [Sleep] @ a2" and e2: "e2 = True" using "3.prems"(1) p l by simp_all
  have ih: "\<forall>w \<in> set w1. ReadyPoll (snd w) True \<in> set a2"
    using "3.IH" [OF p [symmetric] refl] l e2 by simp
  show ?case using poll_pass_remaining [OF p] ih acts by auto
qed

lemma wait_loop_no_execute:
  "wait_loop fuel rdy k waiting = (ended, acts) \<Longrightarrow> ExecuteOperationCall es r \<notin> set acts"
proof (induction fuel rdy k waiting arbitrary: ended acts rule: wait_loop.induct)
  case (1 fuel rdy k)
  then show ?case by simp
next
  case (2 rdy k w ws)
  then show ?case by simp
next
  case (3 fuel rdy k w ws)
  obtain w1 a1 where p: "poll_pass rdy k (w # ws) = (w1, a1)"
    by (cases "poll_pass rdy k (w # ws)")
  obtain e2 a2 where l: "wait_loop fuel rdy (Suc k) w1 = (e2, a2)"
    by (cases "wait_loop fuel rdy (Suc k) w1")
  have acts: "acts = a1 @ [Sleep] @ a2" using "3.prems"(1) p l by simp
  show ?case using poll_pass_no_execute [OF p] "3.IH" [OF p [symmetric] refl l] acts by simp
qed

lemma wait_loop_wait_start:
  "wait_loop fuel rdy k waiting = (ended, acts) \<Longrightarrow>
   TimelineActivityStart name ''WAIT_FOR_DATA'' \<notin> set acts"
proof (induction fuel rdy k waiting arbitrary: ended acts rule: wait_loop.induct)
  case (1 fuel rdy k)
  then show ?case by simp
next
  case (2 rdy k w ws)
  then show ?case by simp
next
  case (3 fuel rdy k w ws)
  obtain w1 a1 where p: "poll_pass rdy k (w # ws) = (w1, a1)"
    by (cases "poll_pass rdy k (w # ws)")
  obtain e2 a2 where l: "wait_loop fuel rdy (Suc k) w1 = (e2, a2)"
    by (cases "wait_loop fuel rdy (Suc k) w1")
  have acts: "acts = a1 @ [Sleep] @ a2" using "3.prems"(1) p l by simp
  show ?case using poll_pass_wait_start [OF p] "3.IH" [OF p [symmetric] refl l] acts by simp
qed

lemma waiting_tensors_set:
  "set (waiting_tensors entries) =
     {(tensor_name e, ev) | e ev. e \<in> set entries \<and> ready_event e = Some ev}"
  by (induction entries) (auto split: option.splits)

lemma split_at_unique:
  assumes "xs @ a # ys = before @ b # after"
    and "\<forall>x \<in> set xs. \<not> P x" and "\<forall>y \<in> set ys. \<not> P y" and "P b"
  shows "before = xs \<and> b = a \<and> after = ys"
  using assms
proof (induction xs arbitrary: before)
  case Nil
  then show ?case by (cases before) auto
next
  case (Cons x xs)
  then show ?case by (cases before) auto
qed

lemma InitializeBuffer_actions:
  "InitializeBuffer env names = (acts, status) \<Longrightarrow>
   (\<forall>a \<in> set acts. \<not> is_execute a \<and> \<not> is_callback a
      \<and> (\<forall>ev b. a \<noteq> ReadyPoll ev b)
      \<and> (\<forall>name. a \<noteq> TimelineActivityStart name ''WAIT_FOR_DATA''))"
  by (auto simp: InitializeBuffer_def split: if_splits)

lemma fail_entries_actions:
  "\<forall>a \<in> set (fail_entries status entries). \<not> is_execute a
      \<and> (\<forall>ev b. a \<noteq> ReadyPoll ev b)
      \<and> (\<forall>name. a \<noteq> TimelineActivityStart name ''WAIT_FOR_DATA'')"
  by (auto simp: fail_entries_def)

lemma finish_entries_actions:
  "\<forall>a \<in> set (finish_entries status entries). \<not> is_execute a
      \<and> (\<forall>ev b. a \<noteq> ReadyPoll ev b)
      \<and> (\<forall>name. a \<noteq> TimelineActivityStart name ''WAIT_FOR_DATA'')"
  by (auto simp: finish_entries_def)

lemma finish_entries_callbacks:
  "\<not> in_progress status \<Longrightarrow>
   filter is_callback (finish_entries status entries) =
     map (\<lambda>e. InvokeCallback (callback e) status) entries"
  by (induction entries) (simp_all add: finish_entries_def)

lemma poll_pass_no_callback:
  "poll_pass rdy k waiting = (waiting', acts) \<Longrightarrow> filter is_callback acts = []"
proof (induction waiting arbitrary: waiting' acts)
  case Nil
  then show ?case by simp
next
  case (Cons w waiting)
  obtain name' ev' where w: "w = (name', ev')" by (cases w)
  obtain w1 a1 where r: "poll_pass rdy k waiting = (w1, a1)" by (cases "poll_pass rdy k waiting")
  from Cons.prems w r Cons.IH [OF r] show ?case by (auto split: if_splits)
qed

lemma wait_loop_no_callback:
  "wait_loop fuel rdy k waiting = (ended, acts) \<Longrightarrow> filter is_callback acts = []"
proof (induction fuel rdy k waiting arbitrary: ended acts rule: wait_loop.induct)
  case (1 fuel rdy k)
  then show ?case by simp
next
  case (2 rdy k w ws)
  then show ?case by simp
next
  case (3 fuel rdy k w ws)
  obtain w1 a1 where p: "poll_pass rdy k (w # ws) = (w1, a1)"
    by (cases "poll_pass rdy k (w # ws)")
  obtain e2 a2 where l: "wait_loop fuel rdy (Suc k) w1 = (e2, a2)"
    by (cases "wait_loop fuel rdy (Suc k) w1")
  have acts: "acts = a1 @ [Sleep] @ a2" using "3.prems"(1) p l by simp
  show ?case using poll_pass_no_callback [OF p] "3.IH" [OF p [symmetric] refl l] acts by simp
qed

text \<open>What follows the execution holds no execution, no poll and no start of a wait.\<close>

lemma after_execute_actions:
  "\<forall>a \<in> set (snd (after_execute env entries response)). \<not> is_execute a
      \<and> (\<forall>ev b. a \<noteq> ReadyPoll ev b)
      \<and> (\<forall>name. a \<noteq> TimelineActivityStart name ''WAIT_FOR_DATA'')"
  using finish_entries_actions
  by (auto simp: after_execute_def split: option.splits)

text \<open>The three ways in which PerformOperation ends once the entries are found.\<close>

lemma PerformOperation_cases:
  assumes c: "collect_entries table (tensor_names response) = Some (entries, table')"
    and i: "(if length entries > 1 then InitializeBuffer env (map tensor_name entries)
             else ([], Status_OK)) = (init_acts, init_status)"
    and w: "wait_loop fuel (Ready env) 0 (waiting_tensors entries) = (ended, polls)"
    and b: "failed = (length entries > 1 \<and> \<not> ok init_status)"
  shows "PerformOperation fuel env table response =
     (if failed
      then (Completed, table',
            map (\<lambda>e. TimelineStart (tensor_name e) (response_type response)) entries @
            init_acts @ fail_entries init_status entries)
      else if \<not> ended
      then (StillWaiting, table',
            map (\<lambda>e. TimelineStart (tensor_name e) (response_type response)) entries @
            init_acts @
            map (\<lambda>w. TimelineActivityStart (fst w) ''WAIT_FOR_DATA'') (waiting_tensors entries) @
            polls)
      else (fst (after_execute env entries response), table',
            (map (\<lambda>e. TimelineStart (tensor_name e) (response_type response)) entries @
             init_acts @
             map (\<lambda>w. TimelineActivityStart (fst w) ''WAIT_FOR_DATA'') (waiting_tensors entries) @
             polls @
             map (\<lambda>w. TimelineActivityEnd (fst w)) (waiting_tensors entries)) @
            ExecuteOperationCall entries response #
            snd (after_execute env entries response)))"
  using c i w b by (simp add: PerformOperation_def Let_def split: prod.splits)

lemma quiet_simps [simp]:
  "quiet []" "quiet (xs @ ys) = (quiet xs \<and> quiet ys)" "quiet (a # xs) = (\<not> is_execute a \<and> quiet xs)"
  by (auto simp: quiet_def)

lemma quiet_map_start [simp]: "quiet (map (\<lambda>e. TimelineStart (f e) ty) es)"
  by (simp add: quiet_def)

lemma quiet_map_wait_start [simp]: "quiet (map (\<lambda>w. TimelineActivityStart (f w) s) ws)"
  by (simp add: quiet_def)

lemma quiet_map_wait_end [simp]: "quiet (map (\<lambda>w. TimelineActivityEnd (f w)) ws)"
  by (simp add: quiet_def)

lemma quiet_fail [simp]: "quiet (fail_entries status entries)"
  using fail_entries_actions [of status entries] by (simp add: quiet_def)

lemma quiet_finish [simp]: "quiet (finish_entries status entries)"
  using finish_entries_actions [of status entries] by (simp add: quiet_def)

lemma quiet_after [simp]: "quiet (snd (after_execute env entries response))"
  using after_execute_actions [of env entries response] by (simp add: quiet_def)

lemma quiet_init:
  "(if c then InitializeBuffer env names else ([], Status_OK)) = (acts, status) \<Longrightarrow> quiet acts"
  by (auto simp: quiet_def InitializeBuffer_def split: if_splits)

lemma quiet_wait_loop: "wait_loop fuel rdy k waiting = (ended, acts) \<Longrightarrow> quiet acts"
  using wait_loop_no_execute [of fuel rdy k waiting ended acts]
  unfolding quiet_def
proof (intro ballI)
  fix a assume w: "wait_loop fuel rdy k waiting = (ended, acts)" and a: "a \<in> set acts"
    and n: "\<And>es r. wait_loop fuel rdy k waiting = (ended, acts) \<Longrightarrow> ExecuteOperationCall es r \<notin> set acts"
  show "\<not> is_execute a" using n [OF w] a by (cases a) auto
qed

lemma quiet_no_execute: "quiet acts \<Longrightarrow> ExecuteOperationCall es r \<notin> set acts"
  by (auto simp: quiet_def)

text \<open>Where the execution stands in the trace.\<close>

lemma execute_position:
  assumes c: "collect_entries table (tensor_names response) = Some (entries, table')"
    and p: "PerformOperation fuel env table response = (out, table'', trace)"
    and t: "trace = before @ ExecuteOperationCall es r # after"
  shows "\<exists>init_acts polls.
      wait_loop fuel (Ready env) 0 (waiting_tensors entries) = (True, polls)
    \<and> quiet init_acts \<and> filter is_callback init_acts = []
    \<and> before =
        map (\<lambda>e. TimelineStart (tensor_name e) (response_type response)) entries @
        init_acts @
        map (\<lambda>w. TimelineActivityStart (fst w) ''WAIT_FOR_DATA'') (waiting_tensors entries) @
        polls @
        map (\<lambda>w. TimelineActivityEnd (fst w)) (waiting_tensors entries)
    \<and> es = entries \<and> r = response
    \<and> after = snd (after_execute env entries response)
    \<and> out = fst (after_execute env entries response) \<and> table'' = table'"
proof -
  obtain init_acts init_status where
    i: "(if length entries > 1 then InitializeBuffer env (map tensor_name entries)
         else ([], Status_OK)) = (init_acts, init_status)"
    by (cases "if length entries > 1 then InitializeBuffer env (map tensor_name entries)
         else ([], Status_OK)")
  obtain ended polls where
    w: "wait_loop fuel (Ready env) 0 (waiting_tensors entries) = (ended, polls)"
    by (cases "wait_loop fuel (Ready env) 0 (waiting_tensors entries)")
  define failed where "failed = (length entries > 1 \<and> \<not> ok init_status)"
  note cases = PerformOperation_cases [OF c i w failed_def]
  have qi: "quiet init_acts" using i by (rule quiet_init)
  have qp: "quiet polls" using w by (rule quiet_wait_loop)
  have ci: "filter is_callback init_acts = []"
    using i by (auto simp: InitializeBuffer_def split: if_splits)
  have ex: "ExecuteOperationCall es r \<in> set trace" using t by simp
  let ?pre = "map (\<lambda>e. TimelineStart (tensor_name e) (response_type response)) entries @
        init_acts @
        map (\<lambda>w. TimelineActivityStart (fst w) ''WAIT_FOR_DATA'') (waiting_tensors entries) @
        polls @
        map (\<lambda>w. TimelineActivityEnd (fst w)) (waiting_tensors entries)"
  let ?fin = "snd (after_execute env entries response)"
  have nf: "\<not> failed"
  proof
    assume f: failed
    then have "trace = map (\<lambda>e. TimelineStart (tensor_name e) (response_type response)) entries @
            init_acts @ fail_entries init_status entries"
      using cases p by simp
    then have "quiet trace" using qi by simp
    then show False using ex quiet_no_execute by blast
  qed
  have en: ended
  proof (rule ccontr)
    assume "\<not> ended"
    then have "trace = map (\<lambda>e. TimelineStart (tensor_name e) (response_type response)) entries @
            init_acts @
            map (\<lambda>w. TimelineActivityStart (fst w) ''WAIT_FOR_DATA'') (waiting_tensors entries) @
            polls"
      using cases p nf by simp
    then have "quiet trace" using qi qp by simp
    then show False using ex quiet_no_execute by blast
  qed
  have tr: "trace = ?pre @ ExecuteOperationCall entries response # ?fin"
    and o: "out = fst (after_execute env entries response)" "table'' = table'"
    using cases p nf en by simp_all
  have qpre: "\<forall>x \<in> set ?pre. \<not> is_execute x"
    using qi qp by (simp add: quiet_def ball_Un)
  have qfin: "\<forall>x \<in> set ?fin. \<not> is_execute x"
    using quiet_after [of env entries response] by (simp add: quiet_def)
  have eq: "?pre @ ExecuteOperationCall entries response # ?fin
              = before @ ExecuteOperationCall es r # after"
    using tr t by simp
  have "before = ?pre \<and> ExecuteOperationCall es r = ExecuteOperationCall entries response
          \<and> after = ?fin"
    by (rule split_at_unique [OF eq qpre qfin]) simp
  then have s: "before = ?pre" "es = entries" "r = response" "after = ?fin" by simp_all
  have wl: "wait_loop fuel (Ready env) 0 (waiting_tensors entries) = (True, polls)"
    using w en by simp
  show ?thesis
    apply (rule exI [of _ init_acts])
    apply (rule exI [of _ polls])
    apply (intro conjI)
            apply (rule wl)
           apply (rule qi)
          apply (rule ci)
         apply (rule s(1))
        apply (rule s(2))
       apply (rule s(3))
      apply (rule s(4))
     apply (rule o(1))
    apply (rule o(2))
    done
qed

lemma init_neither:
  "(if c then InitializeBuffer env names else ([], Status_OK)) = (acts, status) \<Longrightarrow>
   a \<in> set acts \<Longrightarrow> \<not> is_poll a \<and> \<not> is_wait_start a"
  by (auto simp: InitializeBuffer_def split: if_splits)

lemma fail_neither: "a \<in> set (fail_entries status entries) \<Longrightarrow> \<not> is_poll a \<and> \<not> is_wait_start a"
  by (auto simp: fail_entries_def)

lemma finish_neither:
  "a \<in> set (snd (after_execute env entries response)) \<Longrightarrow>
   \<not> is_poll a \<and> \<not> is_wait_start a"
  by (auto simp: after_execute_def finish_entries_def split: if_splits option.splits)

lemma trace_polls_and_wait_starts:
  assumes c: "collect_entries table (tensor_names response) = Some (entries, table')"
    and p: "PerformOperation fuel env table response = (out, table'', trace)"
    and a: "a \<in> set trace" and k: "is_poll a \<or> is_wait_start a"
  shows "a \<in> set (map (\<lambda>w. TimelineActivityStart (fst w) ''WAIT_FOR_DATA'')
                    (waiting_tensors entries))
       \<or> a \<in> set (snd (wait_loop fuel (Ready env) 0 (waiting_tensors entries)))"
proof -
  obtain init_acts init_status where
    i: "(if length entries > 1 then InitializeBuffer env (map tensor_name entries)
         else ([], Status_OK)) = (init_acts, init_status)"
    by (cases "if length entries > 1 then InitializeBuffer env (map tensor_name entries)
         else ([], Status_OK)")
  obtain ended polls where
    w: "wait_loop fuel (Ready env) 0 (waiting_tensors entries) = (ended, polls)"
    by (cases "wait_loop fuel (Ready env) 0 (waiting_tensors entries)")
  define failed where "failed = (length entries > 1 \<and> \<not> ok init_status)"
  note cases = PerformOperation_cases [OF c i w failed_def]
  let ?starts = "map (\<lambda>e. TimelineStart (tensor_name e) (response_type response)) entries"
  let ?ws = "map (\<lambda>w. TimelineActivityStart (fst w) ''WAIT_FOR_DATA'') (waiting_tensors entries)"
  let ?we = "map (\<lambda>w. TimelineActivityEnd (fst w)) (waiting_tensors entries)"
  let ?fin = "snd (after_execute env entries response)"
  have n1: "a \<notin> set ?starts" using k by auto
  have n2: "a \<notin> set init_acts" using init_neither [OF i] k by blast
  have n3: "a \<notin> set (fail_entries init_status entries)" using fail_neither k by blast
  have n4: "a \<notin> set ?we" using k by auto
  have n5: "a \<notin> set ?fin" using finish_neither k by blast
  have n6: "a \<noteq> ExecuteOperationCall entries response" using k by auto
  have "set trace \<subseteq> set ?starts \<union> set init_acts \<union> set (fail_entries init_status entries)
          \<union> set ?ws \<union> set polls \<union> set ?we \<union> {ExecuteOperationCall entries response} \<union> set ?fin"
    using cases p by (cases failed; cases ended) auto
  then have "a \<in> set ?ws \<or> a \<in> set polls" using a n1 n2 n3 n4 n5 n6 by blast
  then show ?thesis using w by simp
qed

lemma waiting_tensors_fst:
  "name \<in> fst ` set (waiting_tensors entries) \<Longrightarrow>
   \<exists>e \<in> set entries. tensor_name e = name \<and> ready_event e \<noteq> None"
  by (auto simp: waiting_tensors_set)

lemma waiting_tensors_snd:
  "ev \<in> snd ` set (waiting_tensors entries) \<Longrightarrow> \<exists>e \<in> set entries. ready_event e = Some ev"
  by (auto simp: waiting_tensors_set)

lemma waiting_tensors_event:
  "e \<in> set entries \<Longrightarrow> ready_event e = Some ev \<Longrightarrow>
   (tensor_name e, ev) \<in> set (waiting_tensors entries)"
  by (auto simp: waiting_tensors_set)

lemma polled_in_trace:
  assumes c: "collect_entries table (tensor_names response) = Some (entries, table')"
    and p: "PerformOperation fuel env table response = (out, table'', trace)"
    and a: "ReadyPoll ev b \<in> set trace"
  shows "(\<exists>e \<in> set entries. ready_event e = Some ev) \<and> (\<exists>j. Ready env ev j = b)"
proof -
  obtain ended polls where
    w: "wait_loop fuel (Ready env) 0 (waiting_tensors entries) = (ended, polls)"
    by (cases "wait_loop fuel (Ready env) 0 (waiting_tensors entries)")
  have "ReadyPoll ev b \<in> set (map (\<lambda>w. TimelineActivityStart (fst w) ''WAIT_FOR_DATA'')
                    (waiting_tensors entries))
       \<or> ReadyPoll ev b \<in> set (snd (wait_loop fuel (Ready env) 0 (waiting_tensors entries)))"
    by (rule trace_polls_and_wait_starts [OF c p a]) simp
  then have "ReadyPoll ev b \<in> set polls" using w by auto
  then have "ev \<in> snd ` set (waiting_tensors entries) \<and> (\<exists>j. Ready env ev j = b)"
    by (rule wait_loop_polls [OF w])
  then show ?thesis using waiting_tensors_snd by blast
qed

lemma wait_started_in_trace:
  assumes c: "collect_entries table (tensor_names response) = Some (entries, table')"
    and p: "PerformOperation fuel env table response = (out, table'', trace)"
    and a: "TimelineActivityStart name ''WAIT_FOR_DATA'' \<in> set trace"
  shows "\<exists>e \<in> set entries. tensor_name e = name \<and> ready_event e \<noteq> None"
proof -
  obtain ended polls where
    w: "wait_loop fuel (Ready env) 0 (waiting_tensors entries) = (ended, polls)"
    by (cases "wait_loop fuel (Ready env) 0 (waiting_tensors entries)")
  have "TimelineActivityStart name ''WAIT_FOR_DATA''
           \<in> set (map (\<lambda>w. TimelineActivityStart (fst w) ''WAIT_FOR_DATA'')
                    (waiting_tensors entries))
       \<or> TimelineActivityStart name ''WAIT_FOR_DATA''
           \<in> set (snd (wait_loop fuel (Ready env) 0 (waiting_tensors entries)))"
    by (rule trace_polls_and_wait_starts [OF c p a]) simp
  moreover have "TimelineActivityStart name ''WAIT_FOR_DATA'' \<notin> set polls"
    by (rule wait_loop_wait_start [OF w])
  ultimately have "name \<in> fst ` set (waiting_tensors entries)" using w by auto
  then show ?thesis by (rule waiting_tensors_fst)
qed

lemma ready_before_execute:
  assumes c: "collect_entries table (tensor_names response) = Some (entries, table')"
    and p: "PerformOperation fuel env table response = (out, table'', trace)"
    and t: "trace = before @ ExecuteOperationCall es r # after"
  shows "es = entries \<and>
         (\<forall>e \<in> set entries. \<forall>ev. ready_event e = Some ev \<longrightarrow>
            ReadyPoll ev True \<in> set before \<and> (\<exists>j. Ready env ev j))"
proof -
  obtain init_acts polls where
    w: "wait_loop fuel (Ready env) 0 (waiting_tensors entries) = (True, polls)"
    and b: "before =
        map (\<lambda>e. TimelineStart (tensor_name e) (response_type response)) entries @
        init_acts @
        map (\<lambda>w. TimelineActivityStart (fst w) ''WAIT_FOR_DATA'') (waiting_tensors entries) @
        polls @
        map (\<lambda>w. TimelineActivityEnd (fst w)) (waiting_tensors entries)"
    and es: "es = entries"
    using execute_position [OF c p t] by blast
  have "ReadyPoll ev True \<in> set before \<and> (\<exists>j. Ready env ev j)"
    if e: "e \<in> set entries" and ev: "ready_event e = Some ev" for e ev
  proof -
    have "(tensor_name e, ev) \<in> set (waiting_tensors entries)"
      using e ev by (rule waiting_tensors_event)
    then have pl: "ReadyPoll ev True \<in> set polls"
      using wait_loop_ended [OF w] by fastforce
    then have "\<exists>j. Ready env ev j = True" using wait_loop_polls [OF w] by blast
    then show ?thesis using pl b by simp
  qed
  then show ?thesis using es by blast
qed

text \<open>
  Claim C7. In every trace of \<open>PerformOperation\<close>, however many passes the waiting loop
  has made, the call of \<open>ExecuteOperation\<close> comes only after every entry of the response
  with a ready event has answered a poll with yes; when an entry has an event that is never
  ready the call is never made; and only entries with a ready event are polled and waited
  for.
\<close>

theorem execute_only_after_ready:
  assumes c: "collect_entries table (tensor_names response) = Some (entries, table')"
    and p: "PerformOperation fuel env table response = (out, table'', trace)"
  shows "(\<forall>before es r after. trace = before @ ExecuteOperationCall es r # after \<longrightarrow>
            es = entries \<and>
            (\<forall>e \<in> set entries. \<forall>ev. ready_event e = Some ev \<longrightarrow>
               ReadyPoll ev True \<in> set before \<and> (\<exists>j. Ready env ev j)))
       \<and> ((\<exists>e \<in> set entries. \<exists>ev. ready_event e = Some ev \<and> (\<forall>j. \<not> Ready env ev j)) \<longrightarrow>
            (\<forall>es r. ExecuteOperationCall es r \<notin> set trace))
       \<and> (\<forall>ev b. ReadyPoll ev b \<in> set trace \<longrightarrow>
            (\<exists>e \<in> set entries. ready_event e = Some ev) \<and> (\<exists>j. Ready env ev j = b))
       \<and> (\<forall>name. TimelineActivityStart name ''WAIT_FOR_DATA'' \<in> set trace \<longrightarrow>
            (\<exists>e \<in> set entries. tensor_name e = name \<and> ready_event e \<noteq> None))"
proof (intro conjI allI impI)
  fix before es r after
  assume t: "trace = before @ ExecuteOperationCall es r # after"
  show "es = entries" using ready_before_execute [OF c p t] by blast
  show "\<forall>e \<in> set entries. \<forall>ev. ready_event e = Some ev \<longrightarrow>
               ReadyPoll ev True \<in> set before \<and> (\<exists>j. Ready env ev j)"
    using ready_before_execute [OF c p t] by blast
next
  fix es r
  assume n: "\<exists>e \<in> set entries. \<exists>ev. ready_event e = Some ev \<and> (\<forall>j. \<not> Ready env ev j)"
  show "ExecuteOperationCall es r \<notin> set trace"
  proof
    assume "ExecuteOperationCall es r \<in> set trace"
    then obtain before after where t: "trace = before @ ExecuteOperationCall es r # after"
      by (auto dest: split_list)
    show False using ready_before_execute [OF c p t] n by blast
  qed
next
  fix ev b
  assume a: "ReadyPoll ev b \<in> set trace"
  show "\<exists>e \<in> set entries. ready_event e = Some ev" using polled_in_trace [OF c p a] by blast
  show "\<exists>j. Ready env ev j = b" using polled_in_trace [OF c p a] by blast
next
  fix name
  assume a: "TimelineActivityStart name ''WAIT_FOR_DATA'' \<in> set trace"
  show "\<exists>e \<in> set entries. tensor_name e = name \<and> ready_event e \<noteq> None"
    by (rule wait_started_in_trace [OF c p a])
qed

lemma after_execute_thrown:
  "ExecuteOperation env entries response = Thrown what \<Longrightarrow>
   after_execute env entries response =
     (Completed, finish_entries (UnknownError what) entries)"
  by (simp add: after_execute_def execute_status_def)

lemma after_execute_escaped:
  "(fst (after_execute env entries response) = Escaped) =
     (ExecuteOperation env entries response = ThrownOther)"
  "fst (after_execute env entries response) = Escaped \<Longrightarrow>
     snd (after_execute env entries response) = []"
  by (auto simp: after_execute_def execute_status_def split: exec_result.splits)

text \<open>
  Claim C8, as amended. When \<open>ExecuteOperation\<close> is reached and throws a
  \<open>std::exception\<close>, the exception is caught at the call site, \<open>PerformOperation\<close> returns,
  and the callbacks it calls are the callbacks of all the entries, each once and each with
  the unknown-error status that carries the message of the exception. An exception leaves
  \<open>PerformOperation\<close> exactly when the execution throws a value that is not a
  \<open>std::exception\<close>, and then no callback is called.
\<close>

theorem std_exception_becomes_unknown_error:
  assumes c: "collect_entries table (tensor_names response) = Some (entries, table')"
    and p: "PerformOperation fuel env table response = (out, table'', trace)"
    and t: "ExecuteOperationCall entries response \<in> set trace"
  shows "(\<forall>what. ExecuteOperation env entries response = Thrown what \<longrightarrow>
            out = Completed
            \<and> filter is_callback trace =
                map (\<lambda>e. InvokeCallback (callback e) (UnknownError what)) entries
            \<and> \<not> ok (UnknownError what))
       \<and> ((out = Escaped) = (ExecuteOperation env entries response = ThrownOther))
       \<and> (out = Escaped \<longrightarrow> filter is_callback trace = [])"
proof -
  obtain before after where
    tr: "trace = before @ ExecuteOperationCall entries response # after"
    using t by (auto dest: split_list)
  obtain init_acts polls where
    w: "wait_loop fuel (Ready env) 0 (waiting_tensors entries) = (True, polls)"
    and ci: "filter is_callback init_acts = []"
    and b: "before =
        map (\<lambda>e. TimelineStart (tensor_name e) (response_type response)) entries @
        init_acts @
        map (\<lambda>w. TimelineActivityStart (fst w) ''WAIT_FOR_DATA'') (waiting_tensors entries) @
        polls @
        map (\<lambda>w. TimelineActivityEnd (fst w)) (waiting_tensors entries)"
    and a: "after = snd (after_execute env entries response)"
    and o: "out = fst (after_execute env entries response)"
    using execute_position [OF c p tr] by blast
  have cb: "filter is_callback before = []"
    using ci wait_loop_no_callback [OF w] unfolding b by (simp add: filter_empty_conv)
  have caught: "out = Completed
            \<and> filter is_callback trace =
                map (\<lambda>e. InvokeCallback (callback e) (UnknownError what)) entries
            \<and> \<not> ok (UnknownError what)"
    if x: "ExecuteOperation env entries response = Thrown what" for what
  proof -
    have np: "\<not> in_progress (UnknownError what)" "\<not> ok (UnknownError what)"
      by (simp_all add: UnknownError_def)
    have "filter is_callback after =
        map (\<lambda>e. InvokeCallback (callback e) (UnknownError what)) entries"
      unfolding a after_execute_thrown [OF x] snd_conv
      by (rule finish_entries_callbacks [OF np(1)])
    then have "filter is_callback trace =
        map (\<lambda>e. InvokeCallback (callback e) (UnknownError what)) entries"
      using cb tr by simp
    moreover have "out = Completed" unfolding o after_execute_thrown [OF x] by simp
    ultimately show ?thesis using np(2) by simp
  qed
  have esc: "(out = Escaped) = (ExecuteOperation env entries response = ThrownOther)"
    unfolding o by (rule after_execute_escaped(1))
  have none: "filter is_callback trace = []" if "out = Escaped"
  proof -
    have "after = []" using that a o after_execute_escaped(2) by simp
    then show ?thesis using cb tr by simp
  qed
  show ?thesis using caught esc none by blast
qed

text \<open>The loop ends once every event it waits for has become ready for good.\<close>

lemma poll_pass_all_ready:
  "\<forall>w \<in> set waiting. rdy (snd w) k \<Longrightarrow> fst (poll_pass rdy k waiting) = []"
  by (induction waiting) (auto split: prod.splits)

lemma wait_loop_ends:
  "\<forall>w \<in> set waiting. \<forall>j \<ge> n. rdy (snd w) j \<Longrightarrow> n < k + fuel \<Longrightarrow> 0 < fuel \<Longrightarrow>
   fst (wait_loop fuel rdy k waiting)"
proof (induction fuel rdy k waiting rule: wait_loop.induct)
  case (1 fuel rdy k)
  then show ?case by simp
next
  case (2 rdy k w ws)
  then show ?case by simp
next
  case (3 fuel rdy k w ws)
  obtain w1 a1 where p: "poll_pass rdy k (w # ws) = (w1, a1)"
    by (cases "poll_pass rdy k (w # ws)")
  obtain e2 a2 where l: "wait_loop fuel rdy (Suc k) w1 = (e2, a2)"
    by (cases "wait_loop fuel rdy (Suc k) w1")
  have res: "fst (wait_loop (Suc fuel) rdy k (w # ws)) = e2" using p l by simp
  show ?case
  proof (cases "n \<le> k")
    case True
    then have "\<forall>w' \<in> set (w # ws). rdy (snd w') k" using "3.prems"(1) by blast
    then have "w1 = []" using poll_pass_all_ready [of "w # ws" rdy k] p by simp
    then have "e2" using l by simp
    then show ?thesis using res by simp
  next
    case False
    then have n: "n < Suc k + fuel" "0 < fuel" using "3.prems"(2) by simp_all
    have "set w1 \<subseteq> set (w # ws)" using poll_pass_remaining [OF p] by blast
    then have "\<forall>w' \<in> set w1. \<forall>j \<ge> n. rdy (snd w') j" using "3.prems"(1) by blast
    then have "fst (wait_loop fuel rdy (Suc k) w1)"
      using "3.IH" [OF p [symmetric] refl] n by blast
    then show ?thesis using res l by simp
  qed
qed

text \<open>
  \<open>PerformOperation\<close> returns, or the exception of the execution leaves it, when every
  ready event of its entries is ready from some pass on and the loop may make more passes
  than that.
\<close>

lemma PerformOperation_completes:
  assumes c: "collect_entries table (tensor_names response) = Some (entries, table')"
    and r: "\<forall>e \<in> set entries. \<forall>ev. ready_event e = Some ev \<longrightarrow> (\<forall>j \<ge> n. Ready env ev j)"
    and f: "n < fuel"
  shows "fst (PerformOperation fuel env table response) = Completed
       \<or> (fst (PerformOperation fuel env table response) = Escaped
          \<and> ExecuteOperation env entries response = ThrownOther)"
proof -
  obtain init_acts init_status where
    i: "(if length entries > 1 then InitializeBuffer env (map tensor_name entries)
         else ([], Status_OK)) = (init_acts, init_status)"
    by (cases "if length entries > 1 then InitializeBuffer env (map tensor_name entries)
         else ([], Status_OK)")
  obtain ended polls where
    w: "wait_loop fuel (Ready env) 0 (waiting_tensors entries) = (ended, polls)"
    by (cases "wait_loop fuel (Ready env) 0 (waiting_tensors entries)")
  define failed where "failed = (length entries > 1 \<and> \<not> ok init_status)"
  note cases = PerformOperation_cases [OF c i w failed_def]
  have "\<forall>w \<in> set (waiting_tensors entries). \<forall>j \<ge> n. Ready env (snd w) j"
    using r by (auto simp: waiting_tensors_set)
  then have "fst (wait_loop fuel (Ready env) 0 (waiting_tensors entries))"
    using f by (intro wait_loop_ends [where n = n]) simp_all
  then have ended using w by simp
  moreover have "fst (after_execute env entries response) = Completed
       \<or> (fst (after_execute env entries response) = Escaped
          \<and> ExecuteOperation env entries response = ThrownOther)"
    by (auto simp: after_execute_def execute_status_def split: exec_result.splits)
  ultimately show ?thesis using cases by (cases failed) simp_all
qed

lemma example_collect:
  "collect_entries waiting_table (tensor_names example_response) =
     Some ([example_entry ''grad_a'' 1000 (Some 1) 1, example_entry ''grad_b'' 2000 None 2], [])"
  by (simp add: waiting_table_def example_response_def table_find_def table_erase_def)

lemma example_response_type: "response_type example_response = RESPONSE_ALLREDUCE"
  by (simp add: example_response_def)

lemma example_waiting:
  "waiting_tensors [example_entry ''grad_a'' 1000 (Some 1) 1, example_entry ''grad_b'' 2000 None 2]
     = [(''grad_a'', 1)]"
  by (simp add: example_entry_def)

lemma example_wait_loop:
  "wait_loop (Suc (Suc (Suc 0))) (Ready (example_env result)) 0 [(''grad_a'', 1)] =
     (True, [ReadyPoll 1 False, Sleep, ReadyPoll 1 True, TimelineActivityEnd ''grad_a'',
             TimelineActivityStart ''grad_a'' ''WAIT_FOR_OTHER_TENSOR_DATA'', Sleep])"
  by (simp add: example_env_def)

lemma never_ready_wait_loop:
  "wait_loop (Suc (Suc 0)) (Ready never_ready_env) 0 [(''grad_a'', 1)] =
     (False, [ReadyPoll 1 False, Sleep, ReadyPoll 1 False, Sleep])"
  by (simp add: never_ready_env_def)

lemma example_run:
  "PerformOperation (Suc (Suc (Suc 0))) (example_env result) waiting_table example_response =
     (fst (after_execute (example_env result)
             [example_entry ''grad_a'' 1000 (Some 1) 1, example_entry ''grad_b'' 2000 None 2]
             example_response),
      [],
      example_before @
      ExecuteOperationCall
        [example_entry ''grad_a'' 1000 (Some 1) 1, example_entry ''grad_b'' 2000 None 2]
        example_response #
      snd (after_execute (example_env result)
             [example_entry ''grad_a'' 1000 (Some 1) 1, example_entry ''grad_b'' 2000 None 2]
             example_response))"
  by (simp add: PerformOperation_def example_collect Let_def InitializeBuffer_def
      example_env_def example_before_def example_entry_def Status_OK_def
      example_response_type case_prod_beta)

lemma example_after_execute:
  "after_execute (example_env (Returned status)) entries response =
     (Completed, finish_entries status entries)"
  "after_execute (example_env (Thrown what)) entries response =
     (Completed, finish_entries (UnknownError what) entries)"
  "after_execute (example_env ThrownOther) entries response = (Escaped, [])"
  by (simp_all add: after_execute_def execute_status_def example_env_def)

lemma never_ready_run:
  "PerformOperation (Suc (Suc 0)) never_ready_env waiting_table example_response =
     (StillWaiting, [],
      [TimelineStart ''grad_a'' RESPONSE_ALLREDUCE, TimelineStart ''grad_b'' RESPONSE_ALLREDUCE,
       TimelineActivityStart ''grad_a'' ''WAIT_FOR_DATA'',
       ReadyPoll 1 False, Sleep, ReadyPoll 1 False, Sleep])"
  by (simp add: PerformOperation_def example_collect Let_def InitializeBuffer_def
      never_ready_env_def example_entry_def Status_OK_def example_response_type)

text \<open>
  Claim C7 on the example response: the first tensor is ready at its second poll and the
  execution follows; with an event that is never ready no execution is in the trace.
\<close>

theorem execute_only_after_ready_witness:
  "fst (PerformOperation (Suc (Suc (Suc 0))) (example_env (Returned Status_OK)) waiting_table
          example_response) = Completed
 \<and> ReadyPoll 1 True \<in> set example_before
 \<and> Ready (example_env (Returned Status_OK)) 1 1
 \<and> (\<forall>j. \<not> Ready never_ready_env 1 j)
 \<and> (\<forall>es r. ExecuteOperationCall es r \<notin>
        set (snd (snd (PerformOperation (Suc (Suc 0)) never_ready_env waiting_table
                         example_response))))"
proof -
  let ?a = "example_entry ''grad_a'' 1000 (Some 1) 1"
  let ?b = "example_entry ''grad_b'' 2000 None 2"
  let ?env = "example_env (Returned Status_OK)"
  note run = example_run [of "Returned Status_OK"]
  note thm1 = execute_only_after_ready [OF example_collect run]
  note thm2 = execute_only_after_ready [OF example_collect never_ready_run]
  have ev: "?a \<in> set [?a, ?b]" "ready_event ?a = Some 1"
    by (simp_all add: example_entry_def)
  have "ReadyPoll 1 True \<in> set example_before \<and> (\<exists>j. Ready ?env 1 j)"
    using thm1 ev by blast
  then have one: "ReadyPoll 1 True \<in> set example_before" by simp
  have never: "\<forall>j. \<not> Ready never_ready_env 1 j" by (simp add: never_ready_env_def)
  then have "\<exists>e \<in> set [?a, ?b]. \<exists>ev. ready_event e = Some ev \<and> (\<forall>j. \<not> Ready never_ready_env ev j)"
    using ev by blast
  then have two: "\<forall>es r. ExecuteOperationCall es r \<notin>
      set [TimelineStart ''grad_a'' RESPONSE_ALLREDUCE, TimelineStart ''grad_b'' RESPONSE_ALLREDUCE,
       TimelineActivityStart ''grad_a'' ''WAIT_FOR_DATA'',
       ReadyPoll 1 False, Sleep, ReadyPoll 1 False, Sleep]"
    using thm2 by blast
  have r: "Ready ?env 1 1" by (simp add: example_env_def)
  show ?thesis
    using one two never r by (simp add: run never_ready_run example_after_execute)
qed

text \<open>
  Claim C8 as it was stated fails: when the execution throws a value that is not a
  \<open>std::exception\<close>, the exception leaves \<open>PerformOperation\<close> after the call and no
  callback is called.
\<close>

theorem uncaught_exception_counterexample:
  "fst (PerformOperation (Suc (Suc (Suc 0))) (example_env ThrownOther) waiting_table
          example_response) = Escaped
 \<and> ExecuteOperationCall
       [example_entry ''grad_a'' 1000 (Some 1) 1, example_entry ''grad_b'' 2000 None 2]
       example_response
     \<in> set (snd (snd (PerformOperation (Suc (Suc (Suc 0))) (example_env ThrownOther)
                         waiting_table example_response)))
 \<and> filter is_callback
       (snd (snd (PerformOperation (Suc (Suc (Suc 0))) (example_env ThrownOther)
                    waiting_table example_response))) = []"
  by (simp add: example_run example_after_execute example_before_def)

text \<open>Claim C8 as amended, on the example response with an execution that throws.\<close>

theorem std_exception_becomes_unknown_error_witness:
  "ExecuteOperationCall
     [example_entry ''grad_a'' 1000 (Some 1) 1, example_entry ''grad_b'' 2000 None 2]
     example_response
     \<in> set (snd (snd (PerformOperation (Suc (Suc (Suc 0)))
                         (example_env (Thrown ''ncclReduceScatter failed''))
                         waiting_table example_response)))
 \<and> fst (PerformOperation (Suc (Suc (Suc 0)))
          (example_env (Thrown ''ncclReduceScatter failed''))
          waiting_table example_response) = Completed
 \<and> filter is_callback
       (snd (snd (PerformOperation (Suc (Suc (Suc 0)))
                    (example_env (Thrown ''ncclReduceScatter failed''))
                    waiting_table example_response)))
     = [InvokeCallback 1 (UnknownError ''ncclReduceScatter failed''),
        InvokeCallback 2 (UnknownError ''ncclReduceScatter failed'')]"
proof -
  let ?es = "[example_entry ''grad_a'' 1000 (Some 1) 1, example_entry ''grad_b'' 2000 None 2]"
  let ?env = "example_env (Thrown ''ncclReduceScatter failed'')"
  let ?run = "PerformOperation (Suc (Suc (Suc 0))) ?env waiting_table example_response"
  have run: "?run = (fst ?run, fst (snd ?run), snd (snd ?run))" by simp
  have x: "ExecuteOperation ?env ?es example_response = Thrown ''ncclReduceScatter failed''"
    by (simp add: example_env_def)
  have t: "ExecuteOperationCall ?es example_response \<in> set (snd (snd ?run))"
    by (simp add: example_run)
  have cb: "map (\<lambda>e. InvokeCallback (callback e) (UnknownError ''ncclReduceScatter failed'')) ?es
      = [InvokeCallback 1 (UnknownError ''ncclReduceScatter failed''),
         InvokeCallback 2 (UnknownError ''ncclReduceScatter failed'')]"
    by (simp add: example_entry_def)
  have "fst ?run = Completed
      \<and> filter is_callback (snd (snd ?run)) =
          map (\<lambda>e. InvokeCallback (callback e) (UnknownError ''ncclReduceScatter failed'')) ?es"
    using std_exception_becomes_unknown_error [OF example_collect run t] x by blast
  then show ?thesis using t cb by simp
qed

section \<open>The pids of the timeline\<close>





lemma well_registered_cong:
  "set seen = set seen' \<Longrightarrow> well_registered seen xs = well_registered seen' xs"
proof (induction seen xs arbitrary: seen' rule: well_registered.induct)
  case (3 seen pid name pid' idx op_name phase ts pid'' dur args objects)
  have "set (pid # seen) = set (pid # seen')" using "3.prems" by simp
  then have "well_registered (pid # seen) objects = well_registered (pid # seen') objects"
    by (rule "3.IH")
  then show ?case using "3.prems" by simp
qed simp_all













end
